theory Spec2Isabelle
  imports Complex_Main "HOL-Library.Word"
begin

section \<open>The autoencoder-augmented Transformer (transformer\_vae.py)\<close>

text \<open>
  The development follows \<^verbatim>\<open>tensor2tensor/models/research/transformer_vae.py\<close>.
  Dense tensors of shape \<^verbatim>\<open>[batch, length, 1, depth]\<close> are lists indexed
  \<^verbatim>\<open>[batch][length][depth]\<close> (the singleton axis is dropped) over the reals;
  discrete latent codes of shape \<^verbatim>\<open>[batch, length, 1]\<close> are lists indexed
  \<^verbatim>\<open>[batch][length]\<close> over 32-bit integers (the \<^verbatim>\<open>tf.int32\<close> of
  \<^verbatim>\<open>tf.to_int32\<close>, whose arithmetic wraps around). The layers of the surrounding
  library (attention, convolutions, dense layers, the bottleneck, beam search) are
  parameters of the model; every random draw is an explicit input.
\<close>

type_synonym tensor = "real list list list"
type_synonym int32 = "32 word"
type_synonym code = "int32 list list"

datatype error =
    UnboundLocalError string
  | AssertionError
  | ValueError string
  | ZeroDivisionError
  | OverflowError
  | KeyError string

datatype mode = TRAIN | EVAL | PREDICT

subsection \<open>Hyperparameters, library layers and the process state\<close>

text \<open>
  The fields of \<^verbatim>\<open>hparams\<close> that the modelled functions read. Sizes and
  counts are natural numbers; \<^verbatim>\<open>word_shuffle\<close> and
  \<^verbatim>\<open>word_dropout\<close> are rates tested for truth (non-zero).
\<close>

record hparams =
  hidden_size :: nat
  z_size :: nat
  num_decode_blocks :: nat
  sampling_temp :: real
  logit_normalization :: bool
  soft_em :: bool
  task :: string
  drop_inputs :: bool
  causal :: bool
  mode :: mode
  do_ae :: bool
  do_mask :: bool
  do_refine :: bool
  use_predict_mask :: bool
  do_attend_decompress :: bool
  word_shuffle :: real
  word_dropout :: real
  num_compress_steps :: nat
  max_length :: nat
  compress_filter_size :: nat
  startup_steps :: int
  mask_startup_steps :: int
  unmasked_percentage :: real
  bottleneck_kind :: string
  sum_over_latents :: bool
  prior_scale :: real
  entropy_scale :: real
  num_blocks :: nat
  num_residuals :: nat
  reshape_method :: string
  trainable_projections :: bool
  ema :: bool

text \<open>
  What \<^verbatim>\<open>hparams.bottleneck(...)\<close> returns:
  \<^verbatim>\<open>(latents_dense, latents_discrete, extra_loss, embed, neg_q_entropy)\<close>.
\<close>

record bottleneck_out =
  bn_dense :: tensor
  bn_discrete :: code
  bn_extra_loss :: real
  bn_embed :: "code \<Rightarrow> tensor"
  bn_neg_q_entropy :: real

text \<open>
  The layers of the library, taken as parameters. A natural-number argument named
  \<open>k\<close> identifies the random op a call creates, so that two ops drawing from the
  same distribution need not agree.
\<close>

record prims =
  transformer_decoder :: "string \<Rightarrow> bool \<Rightarrow> tensor option \<Rightarrow> tensor option \<Rightarrow> tensor \<Rightarrow> tensor"
  image_decoder :: "string \<Rightarrow> tensor \<Rightarrow> tensor"
  dense :: "string \<Rightarrow> nat \<Rightarrow> tensor \<Rightarrow> tensor"
  dense_block :: "nat \<Rightarrow> nat \<Rightarrow> tensor \<Rightarrow> tensor"
  argmax :: "real list \<Rightarrow> int32"
  rsqrt :: "real \<Rightarrow> real"
  multinomial :: "nat \<Rightarrow> nat \<Rightarrow> tensor \<Rightarrow> code"
  sparse_xent :: "code \<Rightarrow> tensor \<Rightarrow> real list list"
  soft_xent :: "code \<Rightarrow> tensor \<Rightarrow> real list list"
  beam_search :: "(code \<Rightarrow> error + real list list) \<Rightarrow> int32 list \<Rightarrow> nat \<Rightarrow> nat \<Rightarrow> nat
                    \<Rightarrow> error + int32 list list list"
  encode :: "string \<Rightarrow> tensor \<Rightarrow> int \<Rightarrow> tensor \<times> tensor"
  compress :: "tensor \<Rightarrow> tensor option \<Rightarrow> tensor"
  bottleneck :: "tensor \<Rightarrow> mode option \<Rightarrow> bottleneck_out"
  shuffle_words :: "real \<Rightarrow> tensor \<Rightarrow> tensor"
  drop_words :: "real \<Rightarrow> tensor \<Rightarrow> tensor"
  pad_to_same_length :: "tensor \<Rightarrow> tensor \<Rightarrow> nat \<Rightarrow> tensor"
  add_positional_embedding :: "string \<Rightarrow> nat \<Rightarrow> tensor \<Rightarrow> tensor"
  residual_conv :: "string \<Rightarrow> nat \<Rightarrow> tensor \<Rightarrow> tensor"
  attend :: "string \<Rightarrow> nat \<Rightarrow> tensor \<Rightarrow> tensor \<Rightarrow> tensor"
  decompress_step :: "nat \<Rightarrow> bool \<Rightarrow> tensor \<Rightarrow> tensor"
  format_float :: "real \<Rightarrow> string"
  inverse_lin_decay :: "int \<Rightarrow> real"
  inverse_exp_decay :: "int \<Rightarrow> real"
  global_step :: int

text \<open>
  The state outside a call: the module-level flag \<^verbatim>\<open>_DO_SUMMARIES\<close>, the
  summaries registered with \<^verbatim>\<open>tf.summary\<close> and the lines written with
  \<^verbatim>\<open>tf.logging.info\<close>.
\<close>

record world =
  DO_SUMMARIES :: bool
  summaries :: "string list"
  logged :: "string list"

text \<open>
  The values drawn by the \<^verbatim>\<open>tf.random_uniform\<close> ops of the forward pass, each
  in \<open>[0, 1)\<close>: one per batch entry for the bottleneck gate (line 415) and for the
  dense gate (line 454), one scalar for the masking schedule (line 497) and one per
  position for the mask (lines 503-504).
\<close>

record draws =
  u_cond :: "real list"
  u_ptc :: "real list"
  u_unmask :: real
  u_mask :: "real list list"

subsection \<open>Mixed-radix digits of a latent code (ae\_latent\_softmax, multi-block case)\<close>

text \<open>
  A Python integer used as an operand of an \<^verbatim>\<open>int32\<close> tensor, and
  \<^verbatim>\<open>tf.floordiv\<close> and \<^verbatim>\<open>tf.floormod\<close> on \<^verbatim>\<open>int32\<close>: both round
  towards minus infinity on the signed values, as \<open>div\<close> and \<open>mod\<close> on \<open>int\<close>
  do. Multiplication and addition of \<^verbatim>\<open>int32\<close> tensors wrap around, as \<open>*\<close>
  and \<open>+\<close> on \<open>32 word\<close> do. A Python integer inside the \<^verbatim>\<open>int32\<close>
  range converts to itself; outside the range the conversion is left to the
  framework (refused or truncated), it is truncated here, and every statement below
  about the program's round trip keeps the constants inside the range.
\<close>

definition int32_const :: "int \<Rightarrow> int32" where
  "int32_const n = word_of_int n"

definition floordiv32 :: "int32 \<Rightarrow> int32 \<Rightarrow> int32" where
  "floordiv32 a b = word_of_int (sint a div sint b)"

definition floormod32 :: "int32 \<Rightarrow> int32 \<Rightarrow> int32" where
  "floormod32 a b = word_of_int (sint a mod sint b)"

text \<open>
  \<^verbatim>\<open>d = tf.floormod(tf.floordiv(latents_discrete, block_vocab_size**i), block_vocab_size)\<close>
  on one element of the code.
\<close>

definition block_digit :: "int \<Rightarrow> nat \<Rightarrow> int32 \<Rightarrow> int32" where
  "block_digit block_vocab_size i v =
     floormod32 (floordiv32 v (int32_const (block_vocab_size ^ i))) (int32_const block_vocab_size)"

text \<open>
  \<^verbatim>\<open>sample = sum([s * block_vocab_size**i for i, s in enumerate(samples)])\<close>
  on one element: \<open>samples\<close> holds the digit sampled by each block's classifier.
\<close>

definition compose_blocks :: "int \<Rightarrow> int32 list \<Rightarrow> int32" where
  "compose_blocks block_vocab_size samples =
     sum_list (map (\<lambda>(i, s). s * int32_const (block_vocab_size ^ i)) (List.enumerate 0 samples))"

text \<open>The digits the decomposition reads back, one per block.\<close>

definition decompose_blocks :: "int \<Rightarrow> nat \<Rightarrow> int32 \<Rightarrow> int32 list" where
  "decompose_blocks block_vocab_size nblocks v =
     map (\<lambda>i. block_digit block_vocab_size i v) [0..<nblocks]"

text \<open>The same composition and digit on unbounded integers, for comparison.\<close>

definition compose_int :: "int \<Rightarrow> int list \<Rightarrow> int" where
  "compose_int B ds = sum_list (map (\<lambda>(i, s). s * B ^ i) (List.enumerate 0 ds))"

definition digit_int :: "int \<Rightarrow> nat \<Rightarrow> int \<Rightarrow> int" where
  "digit_int B i v = (v div B ^ i) mod B"

subsection \<open>The decoder wrapper (decode\_transformer)\<close>

text \<open>
  \<^verbatim>\<open>decode_transformer(encoder_output, encoder_decoder_attention_bias, targets,
  hparams, name, task=None, causal=True)\<close>. The translate branch is the library's
  decoder stack. The other branch asserts \<^verbatim>\<open>task == "image"\<close>, sets
  \<^verbatim>\<open>inputs = None\<close> and, unless \<^verbatim>\<open>hparams.drop_inputs\<close>, passes that
  \<^verbatim>\<open>None\<close> to \<^verbatim>\<open>tf.reshape\<close>, which refuses it.
\<close>

definition decode_transformer ::
  "prims \<Rightarrow> tensor option \<Rightarrow> tensor option \<Rightarrow> tensor \<Rightarrow> hparams \<Rightarrow> string \<Rightarrow> string option
     \<Rightarrow> bool \<Rightarrow> error + tensor" where
  "decode_transformer P encoder_output encoder_decoder_attention_bias targets hp name task_arg
     causal_arg =
     (let tsk = (case task_arg of None \<Rightarrow> task hp | Some t \<Rightarrow> t) in
      if tsk = ''translate'' then
        Inr (transformer_decoder P name causal_arg encoder_output
               encoder_decoder_attention_bias targets)
      else if tsk \<noteq> ''image'' then Inl AssertionError
      else if \<not> drop_inputs hp then Inl (ValueError ''None values not supported.'')
      else Inr (image_decoder P name targets))"

subsection \<open>Latent prediction (multinomial\_sample, ae\_latent\_softmax)\<close>

text \<open>
  \<^verbatim>\<open>multinomial_sample(x, vocab_size, temperature)\<close>: a draw from
  \<^verbatim>\<open>tf.multinomial\<close> on the logits divided by the temperature when the
  temperature is positive, the arg-max over the last axis otherwise.
\<close>

definition multinomial_sample :: "prims \<Rightarrow> nat \<Rightarrow> nat \<Rightarrow> tensor \<Rightarrow> real \<Rightarrow> code" where
  "multinomial_sample P k i x temperature =
     (if temperature > 0 then multinomial P k i (map (map (map (\<lambda>v. v / temperature))) x)
      else map (map (argmax P)) x)"

definition reduce_mean :: "real list \<Rightarrow> real" where
  "reduce_mean xs = sum_list xs / real (length xs)"

text \<open>
  \<^verbatim>\<open>latents_logits *= tf.rsqrt(1e-8 + tf.reduce_mean(tf.square(latents_logits)))\<close>
\<close>

definition normalize_logits :: "prims \<Rightarrow> tensor \<Rightarrow> tensor" where
  "normalize_logits P l =
     (let r = rsqrt P (1 / 10 ^ 8 + reduce_mean (map (\<lambda>v. v * v) (concat (concat l))))
      in map (map (map (\<lambda>v. v * r))) l)"

text \<open>Python's \<^verbatim>\<open>sum(losses)\<close> over per-position losses of one shape.\<close>

fun sum_losses :: "real list list list \<Rightarrow> real list list" where
  "sum_losses [] = []"
| "sum_losses (l # ls) = foldl (\<lambda>a b. map2 (\<lambda>r r'. map2 (+) r r') a b) l ls"

text \<open>
  \<^verbatim>\<open>ae_latent_softmax(latents_pred, latents_discrete, hparams)\<close> returns the
  sampled code and the loss (\<^verbatim>\<open>None\<close> when no code is given).
  \<^verbatim>\<open>vocab_bits = int(math.log(vocab_size, 2))\<close> is \<^verbatim>\<open>z_size\<close>, as the
  assertion after it demands. In the multi-block case element \<open>[b][p]\<close> of the
  sample is the mixed-radix composition of the blocks' samples at \<open>[b][p]\<close>.
\<close>

definition ae_latent_softmax ::
  "prims \<Rightarrow> nat \<Rightarrow> tensor \<Rightarrow> code option \<Rightarrow> hparams
     \<Rightarrow> error + (code \<times> real list list option)" where
  "ae_latent_softmax P k latents_pred latents_discrete hp =
     (let vocab_size = 2 ^ z_size hp in
      if num_decode_blocks hp < 2 then
        (let latents_logits0 = dense P ''extra_logits'' vocab_size latents_pred;
             latents_logits = (if logit_normalization hp then normalize_logits P latents_logits0
                               else latents_logits0);
             sample = multinomial_sample P k 0 latents_logits (sampling_temp hp)
         in case latents_discrete of
              None \<Rightarrow> Inr (sample, None)
            | Some ld \<Rightarrow>
                if soft_em hp then
                  (if num_decode_blocks hp \<noteq> 1 then Inl AssertionError
                   else Inr (sample, Some (soft_xent P ld latents_logits)))
                else Inr (sample, Some (sparse_xent P ld latents_logits)))
      else
        (let vocab_bits = z_size hp in
         if vocab_bits mod num_decode_blocks hp \<noteq> 0 then Inl AssertionError
         else
           (let block_vocab_size = 2 ^ (vocab_bits div num_decode_blocks hp);
                latents_logits = map (\<lambda>i. dense_block P i block_vocab_size latents_pred)
                                   [0..<num_decode_blocks hp];
                loss = (case latents_discrete of
                          None \<Rightarrow> None
                        | Some ld \<Rightarrow>
                            Some (sum_losses
                              (map (\<lambda>i. sparse_xent P
                                     (map (map (block_digit (int block_vocab_size) i)) ld)
                                     (latents_logits ! i))
                                 [0..<num_decode_blocks hp])));
                samples = map (\<lambda>(i, l). multinomial_sample P k i l (sampling_temp hp))
                            (List.enumerate 0 latents_logits);
                sample = map (\<lambda>b. map (\<lambda>p.
                             compose_blocks (int block_vocab_size) (map (\<lambda>s. s ! b ! p) samples))
                           [0..<length (latents_pred ! b)]) [0..<length latents_pred]
            in Inr (sample, loss))))"

subsection \<open>The latent sampler (ae\_latent\_sample\_beam, ae\_latent\_sample)\<close>

text \<open>Python indexing of a list: a negative index counts from the end.\<close>

definition py_nth :: "'a list \<Rightarrow> int \<Rightarrow> 'a" where
  "py_nth xs i = (if i < 0 then xs ! nat (int (length xs) + i) else xs ! nat i)"

definition dim1 :: "'a list list \<Rightarrow> nat" where
  "dim1 t = (case t of [] \<Rightarrow> 0 | r # _ \<Rightarrow> length r)"

text \<open>
  The step function handed to beam search. \<^verbatim>\<open>ids\<close> start with the added
  all-zeros symbol: it is dropped and a zero is padded at the end.
\<close>

definition symbols_to_logits_fn ::
  "prims \<Rightarrow> tensor option \<Rightarrow> tensor option \<Rightarrow> (code \<Rightarrow> tensor) \<Rightarrow> hparams \<Rightarrow> code
     \<Rightarrow> error + real list list" where
  "symbols_to_logits_fn P inputs ed embed_fn hp ids =
     (let latents_discrete = map (\<lambda>row. drop 1 row @ [0]) ids;
          latents_dense = embed_fn latents_discrete
      in case decode_transformer P inputs ed latents_dense hp ''extra'' None True of
           Inl e \<Rightarrow> Inl e
         | Inr latents_pred \<Rightarrow>
             (let logits = dense P ''extra_logits'' (2 ^ z_size hp) latents_pred;
                  current_output_position = int (dim1 ids) - 1
              in Inr (map (\<lambda>row. py_nth row current_output_position) logits)))"

text \<open>
  \<^verbatim>\<open>ae_latent_sample_beam(latents_dense_in, inputs, ed, embed, hparams)\<close>. It first
  tiles \<^verbatim>\<open>inputs\<close> and \<^verbatim>\<open>ed\<close> by the beam size (lines 276-277);
  \<^verbatim>\<open>tf.tile\<close> refuses \<^verbatim>\<open>None\<close>, and tiling by one leaves a tensor as
  it is. The first beam is returned without the added all-zeros symbol.
\<close>

definition ae_latent_sample_beam ::
  "prims \<Rightarrow> tensor \<Rightarrow> tensor option \<Rightarrow> tensor option \<Rightarrow> (code \<Rightarrow> tensor) \<Rightarrow> hparams
     \<Rightarrow> error + code" where
  "ae_latent_sample_beam P latents_dense_in inputs ed embed_fn hp =
     (let vocab_size = 2 ^ z_size hp;
          beam_size = 1
      in case inputs of
           None \<Rightarrow> Inl (ValueError ''None values not supported.'')
         | Some inputs_tiled \<Rightarrow>
             (case ed of
                None \<Rightarrow> Inl (ValueError ''None values not supported.'')
              | Some ed_tiled \<Rightarrow>
                  (let initial_ids = replicate (length latents_dense_in) 0;
                       len = dim1 latents_dense_in
                   in case beam_search P
                             (symbols_to_logits_fn P (Some inputs_tiled) (Some ed_tiled)
                                embed_fn hp)
                             initial_ids beam_size len vocab_size of
                        Inl e \<Rightarrow> Inl e
                      | Inr ids \<Rightarrow> Inr (map (drop 1) (map (\<lambda>beams. beams ! 0) ids)))))"

text \<open>
  \<^verbatim>\<open>next_bit(latents_discrete, i)\<close>: predict again from the embedded code and
  return \<^verbatim>\<open>tf.concat([latents_discrete_prev[:, :(i+1), :], latents_discrete[:, (i+1):, :]], axis=1)\<close>.
\<close>

definition next_bit ::
  "prims \<Rightarrow> tensor option \<Rightarrow> tensor option \<Rightarrow> (code \<Rightarrow> tensor) \<Rightarrow> hparams \<Rightarrow> code \<Rightarrow> nat
     \<Rightarrow> error + code" where
  "next_bit P inputs ed embed_fn hp latents_discrete i =
     (let latents_discrete_prev = latents_discrete;
          latents_dense = embed_fn latents_discrete
      in case decode_transformer P inputs ed latents_dense hp ''extra'' None True of
           Inl e \<Rightarrow> Inl e
         | Inr latents_pred \<Rightarrow>
             (case ae_latent_softmax P (Suc i) latents_pred None hp of
                Inl e \<Rightarrow> Inl e
              | Inr (latents_discrete_new, _) \<Rightarrow>
                  Inr (map2 (@) (map (take (i + 1)) latents_discrete_prev)
                                (map (drop (i + 1)) latents_discrete_new))))"

text \<open>
  \<^verbatim>\<open>for i in range(iters): latents_discrete = next_bit(latents_discrete, i)\<close>,
  over the list of the round indices still to run.
\<close>

fun refine_rounds ::
  "prims \<Rightarrow> tensor option \<Rightarrow> tensor option \<Rightarrow> (code \<Rightarrow> tensor) \<Rightarrow> hparams \<Rightarrow> nat list \<Rightarrow> code
     \<Rightarrow> error + code" where
  "refine_rounds P inputs ed embed_fn hp [] latents_discrete = Inr latents_discrete"
| "refine_rounds P inputs ed embed_fn hp (i # rounds) latents_discrete =
     (case next_bit P inputs ed embed_fn hp latents_discrete i of
        Inl e \<Rightarrow> Inl e
      | Inr latents_discrete' \<Rightarrow> refine_rounds P inputs ed embed_fn hp rounds latents_discrete')"

text \<open>The first prediction of the iterative path (lines 309-310).\<close>

definition first_prediction ::
  "prims \<Rightarrow> tensor \<Rightarrow> tensor option \<Rightarrow> tensor option \<Rightarrow> hparams \<Rightarrow> error + code" where
  "first_prediction P latents_dense inputs ed hp =
     (case decode_transformer P inputs ed latents_dense hp ''extra'' None True of
        Inl e \<Rightarrow> Inl e
      | Inr latents_pred \<Rightarrow>
          (case ae_latent_softmax P 0 latents_pred None hp of
             Inl e \<Rightarrow> Inl e
           | Inr (latents_discrete, _) \<Rightarrow> Inr latents_discrete))"

text \<open>
  \<^verbatim>\<open>ae_latent_sample(latents_dense, inputs, ed, embed, iters, hparams)\<close>. The
  beam-search branch writes a line to the log before it samples.
\<close>

definition ae_latent_sample ::
  "prims \<Rightarrow> tensor \<Rightarrow> tensor option \<Rightarrow> tensor option \<Rightarrow> (code \<Rightarrow> tensor) \<Rightarrow> nat \<Rightarrow> hparams
     \<Rightarrow> world \<Rightarrow> (error + code) \<times> world" where
  "ae_latent_sample P latents_dense inputs ed embed_fn iters hp w =
     (if num_decode_blocks hp < 2 \<and> sampling_temp hp = 0 then
        (ae_latent_sample_beam P latents_dense inputs ed embed_fn hp,
         w\<lparr>logged := logged w @ [''Running beam-search for latents with beam size 1.'']\<rparr>)
      else
        (case first_prediction P latents_dense inputs ed hp of
           Inl e \<Rightarrow> (Inl e, w)
         | Inr latents_discrete \<Rightarrow>
             (refine_rounds P inputs ed embed_fn hp [0..<iters] latents_discrete, w)))"

subsection \<open>The masking step (ae\_transformer\_internal, lines 491-513)\<close>

text \<open>
  Lines 493-498: the weight from the two decay schedules, lowered by a uniform draw
  times \<^verbatim>\<open>unmasked_percentage\<close> unless refining, then
  \<^verbatim>\<open>tf.minimum(tf.maximum(masking, 0.0), 1.0)\<close>.
\<close>

definition schedule_masking :: "prims \<Rightarrow> hparams \<Rightarrow> real \<Rightarrow> real" where
  "schedule_masking P hp u =
     (let masking0 = inverse_lin_decay P (mask_startup_steps hp);
          masking1 = masking0 * inverse_exp_decay P (mask_startup_steps hp div 4);
          masking2 = (if \<not> do_refine hp then masking1 - u * unmasked_percentage hp
                      else masking1)
      in min (max masking2 0) 1)"

text \<open>Lines 499-502: the two overrides by \<^verbatim>\<open>predict_mask\<close>.\<close>

definition masking_weight :: "prims \<Rightarrow> hparams \<Rightarrow> real \<Rightarrow> real \<Rightarrow> real" where
  "masking_weight P hp predict_mask_arg u =
     (let masking = schedule_masking P hp u;
          masking' = (if use_predict_mask hp then predict_mask_arg else masking)
      in if mode hp = PREDICT then predict_mask_arg else masking')"

text \<open>
  Lines 503-505: \<^verbatim>\<open>mask = tf.to_float(tf.less(masking, tf.random_uniform(...)))\<close>,
  one entry per batch entry and position.
\<close>

definition position_mask :: "real \<Rightarrow> real list list \<Rightarrow> real list list" where
  "position_mask masking u = map (map (\<lambda>x. if masking < x then 1 else 0)) u"

text \<open>
  Line 508: \<^verbatim>\<open>targets = mask * targets + (1.0 - mask) * d\<close>, the mask
  broadcast over the depth axis.
\<close>

definition blend :: "real list list \<Rightarrow> tensor \<Rightarrow> tensor \<Rightarrow> tensor" where
  "blend msk targets d =
     map2 (\<lambda>mrow (trow, drow).
             map2 (\<lambda>m (tv, dv). map2 (\<lambda>t x. m * t + (1 - m) * x) tv dv)
               mrow (zip trow drow))
       msk (zip targets d)"

subsection \<open>The forward pass (ae\_transformer\_internal)\<close>

type_synonym loss_dict = "string \<rightharpoonup> real"

text \<open>Lines 355-356: the dictionary the pass starts from.\<close>

definition initial_losses :: loss_dict where
  "initial_losses = [''extra'' \<mapsto> 0, ''latent_pred'' \<mapsto> 0, ''neg_q_entropy'' \<mapsto> 0]"

text \<open>\<^verbatim>\<open>tf.where(cond, a, b)\<close> with one condition per batch entry.\<close>

definition where_rows :: "bool list \<Rightarrow> 'a list \<Rightarrow> 'a list \<Rightarrow> 'a list" where
  "where_rows c a b = map2 (\<lambda>cb (x, y). if cb then x else y) c (zip a b)"

definition to_float :: "bool \<Rightarrow> real" where
  "to_float b = (if b then 1 else 0)"

text \<open>\<^verbatim>\<open>tf.reduce_mean(tf.squared_difference(a, b))\<close> on tensors of one shape.\<close>

definition mean_squared_difference :: "tensor \<Rightarrow> tensor \<Rightarrow> real" where
  "mean_squared_difference a b =
     reduce_mean (map2 (\<lambda>x y. (x - y) * (x - y)) (concat (concat a)) (concat (concat b)))"

text \<open>
  Lines 359-401: the targets are shuffled (when \<^verbatim>\<open>word_shuffle\<close> is set), padded,
  given positions and, for the compressor only, word-dropped. The result is the pair
  \<^verbatim>\<open>(targets, targets_noisy)\<close>. A task other than
  \<^verbatim>\<open>"translate"\<close> must be \<^verbatim>\<open>"image"\<close> (line 369).
\<close>

definition prepare_targets ::
  "prims \<Rightarrow> hparams \<Rightarrow> tensor option \<Rightarrow> tensor \<Rightarrow> world \<Rightarrow> (error + tensor \<times> tensor) \<times> world" where
  "prepare_targets P hp inputs targets w =
     (if task hp \<noteq> ''translate'' \<and> task hp \<noteq> ''image'' then (Inl AssertionError, w)
      else
        (let max_targets_len_from_inputs =
               (if task hp = ''translate'' then
                  (case inputs of Some i \<Rightarrow> map (\<lambda>row. row @ row) i | None \<Rightarrow> targets)
                else targets);
             w' = (if word_shuffle hp \<noteq> 0
                   then w\<lparr>logged := logged w @
                          [''Using word shuffle with rate = '' @ format_float P (word_shuffle hp)]\<rparr>
                   else w);
             targets1 = (if word_shuffle hp \<noteq> 0 then shuffle_words P (word_shuffle hp) targets
                         else targets);
             targets2 = pad_to_same_length P targets1 max_targets_len_from_inputs
                          (2 ^ num_compress_steps hp);
             targets3 = add_positional_embedding P ''targets_position'' (max_length hp) targets2;
             targets_noisy = (if word_dropout hp \<noteq> 0 then drop_words P (word_dropout hp) targets3
                              else targets3)
         in (Inr (targets3, targets_noisy), w')))"

text \<open>
  Lines 404-455, the branch for \<^verbatim>\<open>hparams.mode != PREDICT\<close>: bottleneck, the
  gate between its output and the compressed targets, and the losses. The result is
  \<^verbatim>\<open>latents_dense\<close> and the loss dictionary.
\<close>

definition autoencode_train ::
  "prims \<Rightarrow> draws \<Rightarrow> hparams \<Rightarrow> tensor option \<Rightarrow> tensor option \<Rightarrow> tensor \<Rightarrow> loss_dict \<Rightarrow> world
     \<Rightarrow> (error + tensor \<times> loss_dict) \<times> world" where
  "autoencode_train P R hp inputs ed targets_c losses w =
     (let bn = bottleneck P targets_c (Some (mode hp));
          w1 = (if DO_SUMMARIES w then w\<lparr>summaries := summaries w @ [''b0'']\<rparr> else w);
          pc = (if mode hp = TRAIN then inverse_exp_decay P (startup_steps hp) else 1);
          cnd = map (\<lambda>u. u < pc) (u_cond R);
          latents_dense = where_rows cnd (bn_dense bn) targets_c;
          losses1 = losses(''extra'' \<mapsto> bn_extra_loss bn * reduce_mean (map to_float cnd))
      in
      if bottleneck_kind hp \<notin> set [''dense'', ''vae''] then
        (case decode_transformer P inputs ed (bn_embed bn (bn_discrete bn)) hp ''extra''
                (Some ''translate'') True of
           Inl e \<Rightarrow> (Inl e, w1)
         | Inr latents_pred \<Rightarrow>
             (case ae_latent_softmax P 0 latents_pred (Some (bn_discrete bn)) hp of
                Inl e \<Rightarrow> (Inl e, w1)
              | Inr (_, None) \<Rightarrow> (Inl (ValueError ''None values not supported.''), w1)
              | Inr (_, Some latent_pred_loss) \<Rightarrow>
                  (let w2 = (if DO_SUMMARIES w1
                             then w1\<lparr>summaries := summaries w1 @ [''latent_pred_loss_mean'']\<rparr>
                             else w1);
                       gated = (if sum_over_latents hp
                                then map2 (*) (map sum_list latent_pred_loss) (map to_float cnd)
                                else concat (map (\<lambda>row. concat (map (\<lambda>x.
                                       map (\<lambda>c. x * to_float c) cnd) row)) latent_pred_loss));
                       losses2 = losses1(''latent_pred'' \<mapsto> reduce_mean gated * prior_scale hp);
                       losses3 = losses2(''neg_q_entropy'' \<mapsto>
                                   bn_neg_q_entropy bn * entropy_scale hp)
                   in (Inr (latents_dense, losses3), w2))))
      else
        (case decode_transformer P inputs ed targets_c hp ''dec_c'' None True of
           Inl e \<Rightarrow> (Inl e, w1)
         | Inr inputs_c \<Rightarrow>
             (let losses2 = losses1(''latent_pred'' \<mapsto>
                              mean_squared_difference inputs_c targets_c * 20);
                  inputs_c' = bn_dense (bottleneck P inputs_c (Some (mode hp)));
                  ptc = (if mode hp = TRAIN then 1 - inverse_lin_decay P 200000 * (1 / 2) else 1);
                  latents_dense' = where_rows (map (\<lambda>u. u < ptc) (u_ptc R)) latents_dense inputs_c'
              in (Inr (latents_dense', losses2), w1))))"

text \<open>
  Lines 456-474, the branch for \<^verbatim>\<open>PREDICT\<close>: the result is
  \<^verbatim>\<open>latents_dense\<close> and the cache.
\<close>

definition autoencode_predict ::
  "prims \<Rightarrow> hparams \<Rightarrow> tensor option \<Rightarrow> tensor option \<Rightarrow> tensor \<Rightarrow> code option \<Rightarrow> world
     \<Rightarrow> (error + tensor \<times> code option) \<times> world" where
  "autoencode_predict P hp inputs ed targets_c cache w =
     (if bottleneck_kind hp \<in> set [''dense'', ''vae''] then
        (case decode_transformer P inputs ed targets_c hp ''dec_c'' None True of
           Inl e \<Rightarrow> (Inl e, w)
         | Inr inputs_c \<Rightarrow>
             (Inr (bn_dense (bottleneck P inputs_c (Some (mode hp))), cache), w))
      else
        (let latent_len = dim1 targets_c;
             embed_fn = bn_embed (bottleneck P targets_c None);
             latents_dense = map (map (map (\<lambda>v. 0))) (map (take latent_len) targets_c)
         in case cache of
              Some c \<Rightarrow> (Inr (embed_fn c, Some c), w)
            | None \<Rightarrow>
                (case ae_latent_sample P latents_dense inputs ed embed_fn 16 hp w of
                   (Inl e, w') \<Rightarrow> (Inl e, w')
                 | (Inr c, w') \<Rightarrow> (Inr (embed_fn c, Some c), w'))))"

text \<open>Lines 476-489: positions for the latents, then the decompression steps.\<close>

definition decompress_latents :: "prims \<Rightarrow> hparams \<Rightarrow> tensor option \<Rightarrow> tensor \<Rightarrow> tensor" where
  "decompress_latents P hp inputs latents_dense =
     foldl (\<lambda>d i.
              (let j = num_compress_steps hp - i - 1;
                   d1 = residual_conv P ''decompress_rc_'' j d;
                   d2 = (case inputs of
                           Some inp \<Rightarrow> if do_attend_decompress hp
                                       then attend P ''decompress_attend_'' j d1 inp else d1
                         | None \<Rightarrow> d1)
               in decompress_step P j (0 < i) d2))
       (add_positional_embedding P ''latents_position'' (max_length hp) latents_dense)
       [0..<num_compress_steps hp]"

text \<open>
  What the autoencoding block (lines 357-513) leaves behind for the rest of the pass:
  the targets handed to the decoder, the losses, the cache, the mask (bound only when
  \<^verbatim>\<open>do_mask\<close> is set), the targets whose shape is
  \<^verbatim>\<open>original_targets_shape\<close>, and \<^verbatim>\<open>targets_c\<close>.
\<close>

record ae_state =
  ae_targets :: tensor
  ae_losses :: loss_dict
  ae_cache :: "code option"
  ae_mask :: "real list list option"
  ae_original_targets :: tensor
  ae_targets_c :: tensor

text \<open>
  \<^verbatim>\<open>tf.reshape\<close> to the shape \<^verbatim>\<open>[b, l, 1, h]\<close>: the elements in row-major
  order, cut into \<open>b\<close> rows of \<open>l\<close> positions of depth \<open>h\<close>.
\<close>

definition reshape_rows :: "nat \<Rightarrow> nat \<Rightarrow> nat \<Rightarrow> real list \<Rightarrow> tensor" where
  "reshape_rows b l h elems =
     map (\<lambda>bi. map (\<lambda>li. take h (drop ((bi * l + li) * h) elems)) [0..<l]) [0..<b]"

text \<open>
  Line 511: \<^verbatim>\<open>tf.reshape(targets, original_targets_shape)\<close>, which fails unless
  the element counts agree.
\<close>

definition reshape_back :: "hparams \<Rightarrow> tensor \<Rightarrow> tensor \<Rightarrow> error + tensor" where
  "reshape_back hp original_targets targets =
     (let elems = concat (concat targets);
          b = length original_targets;
          l = dim1 original_targets;
          h = hidden_size hp
      in if length elems \<noteq> b * l * h then Inl (ValueError ''Cannot reshape a tensor'')
         else Inr (reshape_rows b l h elems))"

text \<open>
  Lines 404-474: the bottleneck in training and evaluation, the sampler in prediction.
  The result is \<^verbatim>\<open>latents_dense\<close>, the losses and the cache.
\<close>

definition bottleneck_stage ::
  "prims \<Rightarrow> draws \<Rightarrow> hparams \<Rightarrow> tensor option \<Rightarrow> tensor option \<Rightarrow> tensor \<Rightarrow> loss_dict
     \<Rightarrow> code option \<Rightarrow> world \<Rightarrow> (error + tensor \<times> loss_dict \<times> code option) \<times> world" where
  "bottleneck_stage P R hp inputs ed targets_c losses cache w =
     (if mode hp \<noteq> PREDICT then
        (case autoencode_train P R hp inputs ed targets_c losses w of
           (Inl e, w') \<Rightarrow> (Inl e, w')
         | (Inr (ld, ls), w') \<Rightarrow> (Inr (ld, ls, cache), w'))
      else
        (case autoencode_predict P hp inputs ed targets_c cache w of
           (Inl e, w') \<Rightarrow> (Inl e, w')
         | (Inr (ld, c), w') \<Rightarrow> (Inr (ld, losses, c), w')))"

text \<open>
  Lines 491-513: with \<^verbatim>\<open>do_mask\<close> the decoder's targets are the blend of the
  prepared targets and the decompressed latents \<open>d\<close> (reshaped back for images);
  without it they are \<open>d\<close>.
\<close>

definition mask_stage ::
  "prims \<Rightarrow> draws \<Rightarrow> hparams \<Rightarrow> tensor \<Rightarrow> tensor \<Rightarrow> tensor \<Rightarrow> tensor \<Rightarrow> loss_dict \<Rightarrow> code option
     \<Rightarrow> real \<Rightarrow> error + ae_state" where
  "mask_stage P R hp original_targets targets1 targets_c d losses1 cache1 predict_mask_arg =
     (if do_mask hp then
        (let masking = masking_weight P hp predict_mask_arg (u_unmask R);
             msk = position_mask masking (u_mask R);
             targets2 = blend msk targets1 d
         in case (if task hp = ''image'' then reshape_back hp original_targets targets2
                  else Inr targets2) of
              Inl e \<Rightarrow> Inl e
            | Inr targets3 \<Rightarrow>
                Inr \<lparr> ae_targets = targets3, ae_losses = losses1, ae_cache = cache1,
                      ae_mask = Some msk, ae_original_targets = original_targets,
                      ae_targets_c = targets_c \<rparr>)
      else
        Inr \<lparr> ae_targets = d, ae_losses = losses1, ae_cache = cache1, ae_mask = None,
              ae_original_targets = original_targets, ae_targets_c = targets_c \<rparr>)"

text \<open>The block under \<^verbatim>\<open>if hparams.do_ae:\<close> (lines 357-513).\<close>

definition autoencoding ::
  "prims \<Rightarrow> draws \<Rightarrow> hparams \<Rightarrow> tensor option \<Rightarrow> tensor option \<Rightarrow> tensor \<Rightarrow> loss_dict
     \<Rightarrow> code option \<Rightarrow> real \<Rightarrow> world \<Rightarrow> (error + ae_state) \<times> world" where
  "autoencoding P R hp inputs ed targets losses cache predict_mask_arg w =
     (let original_targets = targets in
      case prepare_targets P hp inputs targets w of
        (Inl e, w1) \<Rightarrow> (Inl e, w1)
      | (Inr (targets1, targets_noisy), w1) \<Rightarrow>
          (let targets_c = compress P targets_noisy inputs in
           case bottleneck_stage P R hp inputs ed targets_c losses cache w1 of
             (Inl e, w2) \<Rightarrow> (Inl e, w2)
           | (Inr (latents_dense, losses1, cache1), w2) \<Rightarrow>
               (let d = decompress_latents P hp inputs latents_dense
                in (mask_stage P R hp original_targets targets1 targets_c d losses1 cache1
                      predict_mask_arg, w2))))"

text \<open>
  The five values \<^verbatim>\<open>ae_transformer_internal\<close> returns:
  \<^verbatim>\<open>(res, losses, cache, data_dim, latent_dim)\<close>.
\<close>

record ae_result =
  res :: tensor
  losses :: loss_dict
  cache_out :: "code option"
  data_dim :: nat
  latent_dim :: nat

text \<open>
  Lines 517-531, under \<^verbatim>\<open>do_ae\<close>: the refinement of batch entries whose
  mask is all zero, and the gate that holds \<^verbatim>\<open>latent_pred\<close> at zero until
  the global step has passed \<^verbatim>\<open>mask_startup_steps\<close>.
\<close>

definition refine_and_gate ::
  "prims \<Rightarrow> hparams \<Rightarrow> int \<Rightarrow> ae_state \<Rightarrow> tensor \<Rightarrow> error + tensor \<times> loss_dict" where
  "refine_and_gate P hp target_space ae res0 =
     (case (if do_mask hp \<and> do_refine hp then
              (case ae_mask ae of
                 None \<Rightarrow> Inl (UnboundLocalError ''mask'')
               | Some msk \<Rightarrow>
                   (let masked_batches = map sum_list msk;
                        all_masked = map (\<lambda>x. x < 1 / 10) masked_batches
                    in Inr (where_rows all_masked
                              (fst (encode P ''refine_enc'' res0 target_space)) res0)))
            else Inr res0) of
        Inl e \<Rightarrow> Inl e
      | Inr res1 \<Rightarrow>
          (let nonlatent_steps = mask_startup_steps hp;
               latent_time = (nonlatent_steps < global_step P)
           in case ae_losses ae ''latent_pred'' of
                None \<Rightarrow> Inl (KeyError ''latent_pred'')
              | Some v \<Rightarrow>
                  Inr (res1, (ae_losses ae)(''latent_pred'' \<mapsto> v * to_float latent_time))))"

text \<open>
  Lines 340-344: \<^verbatim>\<open>targets = tf.reshape(targets, [batch_size, -1, 1, hidden_size])\<close>
  with the batch size read from the inputs when there are any. The reshape fails unless
  the number of elements is a multiple of \<^verbatim>\<open>batch_size * hidden_size\<close>, which
  must not be zero for the free dimension to be inferred.
\<close>

definition reshape_targets :: "hparams \<Rightarrow> tensor option \<Rightarrow> tensor \<Rightarrow> error + tensor" where
  "reshape_targets hp inputs targets =
     (let batch_size = (case inputs of Some i \<Rightarrow> length i | None \<Rightarrow> length targets);
          elems = concat (concat targets);
          n = batch_size * hidden_size hp
      in if n = 0 \<or> length elems mod n \<noteq> 0 then Inl (ValueError ''Cannot reshape a tensor'')
         else Inr (reshape_rows batch_size (length elems div n) (hidden_size hp) elems))"

text \<open>
  Lines 347-352: the encoder output and the attention bias, or \<^verbatim>\<open>None\<close> for both
  when there are no inputs.
\<close>

definition encode_inputs :: "prims \<Rightarrow> tensor option \<Rightarrow> int \<Rightarrow> tensor option \<times> tensor option" where
  "encode_inputs P inputs target_space =
     (case inputs of
        Some i \<Rightarrow> (let (inputs1, ed) = encode P ''input_enc'' i target_space
                  in (Some inputs1, Some ed))
      | None \<Rightarrow> (None, None))"

text \<open>
  \<^verbatim>\<open>ae_transformer_internal(inputs, targets, target_space, hparams, cache=None,
  predict_mask=1.0)\<close>. The first statement writes the module-level flag. After the
  decoder call the function reads \<^verbatim>\<open>original_targets_shape\<close> (line 536) and
  \<^verbatim>\<open>targets_c\<close> (line 539), which are assigned only inside the
  \<^verbatim>\<open>if hparams.do_ae:\<close> block.
\<close>

definition ae_transformer_internal ::
  "prims \<Rightarrow> draws \<Rightarrow> tensor option \<Rightarrow> tensor \<Rightarrow> int \<Rightarrow> hparams \<Rightarrow> code option \<Rightarrow> real \<Rightarrow> world
     \<Rightarrow> (error + ae_result) \<times> world" where
  "ae_transformer_internal P R inputs targets target_space hp cache predict_mask_arg w =
     (let w0 = (if do_refine hp then w\<lparr>DO_SUMMARIES := False\<rparr> else w)
      in
      case reshape_targets hp inputs targets of
        Inl e \<Rightarrow> (Inl e, w0)
      | Inr targets0 \<Rightarrow>
     (let inputs1 = fst (encode_inputs P inputs target_space);
          ed = snd (encode_inputs P inputs target_space);
          losses0 = initial_losses
      in
      if do_ae hp then
        (case autoencoding P R hp inputs1 ed targets0 losses0 cache predict_mask_arg w0 of
           (Inl e, w1) \<Rightarrow> (Inl e, w1)
         | (Inr ae, w1) \<Rightarrow>
             (case decode_transformer P inputs1 ed (ae_targets ae) hp ''decoder'' None
                     (causal hp) of
                Inl e \<Rightarrow> (Inl e, w1)
              | Inr res0 \<Rightarrow>
                  (case refine_and_gate P hp target_space ae res0 of
                     Inl e \<Rightarrow> (Inl e, w1)
                   | Inr (res1, losses1) \<Rightarrow>
                       (let res2 = map (take (dim1 (ae_original_targets ae))) res1;
                            data_dim_v = dim1 res2;
                            latent_dim_v = dim1 (ae_targets_c ae)
                        in (Inr \<lparr> res = res2, losses = losses1, cache_out = ae_cache ae,
                                   data_dim = data_dim_v, latent_dim = latent_dim_v \<rparr>, w1)))))
      else
        (case decode_transformer P inputs1 ed targets0 hp ''decoder'' None (causal hp) of
           Inl e \<Rightarrow> (Inl e, w0)
         | Inr res0 \<Rightarrow> (Inl (UnboundLocalError ''original_targets_shape''), w0))))"

subsection \<open>Model construction (TransformerAE.\_\_init\_\_)\<close>

text \<open>
  The keyword arguments that \<^verbatim>\<open>__init__\<close> binds into
  \<^verbatim>\<open>hparams.bottleneck\<close> beyond the plain hyperparameters: the value of
  \<^verbatim>\<open>_DO_SUMMARIES\<close> at construction and the shapes of the variables created
  for the DVQ bottlenecks.
\<close>

record bottleneck_partial =
  summary_kw :: bool
  projection_tensors :: "nat list option"
  means :: "nat list option"
  ema_count :: "nat list list option"
  ema_means :: "nat list list option"

record transformer_ae =
  predict_mask :: real
  model_hparams :: hparams
  model_bottleneck :: bottleneck_partial

text \<open>
  \<^verbatim>\<open>__init__\<close> after the base class constructor. With
  \<^verbatim>\<open>from __future__ import division\<close> the quotient
  \<^verbatim>\<open>z_size / num_residuals\<close> is a true division, taken here over the reals;
  \<^verbatim>\<open>2**x\<close> on a float raises \<^verbatim>\<open>OverflowError\<close> from
  \<open>x = 1024\<close> on. The check of \<^verbatim>\<open>reshape_method\<close> is inside the branch
  for the two DVQ bottleneck kinds.
\<close>

definition TransformerAE_init :: "hparams \<Rightarrow> world \<Rightarrow> (error + transformer_ae) \<times> world" where
  "TransformerAE_init hp w =
     (let plain = \<lparr> summary_kw = DO_SUMMARIES w, projection_tensors = None, means = None,
                     ema_count = None, ema_means = None \<rparr>
      in
      if bottleneck_kind hp \<in> set [''dvq'', ''gumbel-softmax-dvq''] then
        if num_residuals hp = 0 then (Inl ZeroDivisionError, w)
        else
          (let z_size_per_residual = real (z_size hp) / real (num_residuals hp) in
           if num_blocks hp = 0 then (Inl ZeroDivisionError, w)
           else
             (let block_dim = hidden_size hp div num_blocks hp in
              if 1024 \<le> z_size_per_residual / real (num_blocks hp) then (Inl OverflowError, w)
              else
                (let block_v_size = nat \<lfloor>2 powr (z_size_per_residual / real (num_blocks hp))\<rfloor>;
                     shapes = \<lparr> summary_kw = DO_SUMMARIES w, projection_tensors = None,
                       means = Some [num_residuals hp, num_blocks hp, block_v_size, block_dim],
                       ema_count = (if ema hp
                          then Some (replicate (num_residuals hp) [num_blocks hp, block_v_size])
                          else None),
                       ema_means = (if ema hp
                          then Some (replicate (num_residuals hp)
                                       [num_blocks hp, block_v_size, block_dim])
                          else None) \<rparr>
                 in
                 if reshape_method hp = ''project'' then
                   (Inr \<lparr> predict_mask = 1, model_hparams = hp,
                          model_bottleneck = shapes\<lparr>projection_tensors :=
                            Some [num_residuals hp, num_blocks hp, hidden_size hp, block_dim]\<rparr> \<rparr>,
                    w\<lparr>logged := logged w @ [''Using projections for DVQ'',
                       ''Trainable projections = '' @
                         (if trainable_projections hp then ''True'' else ''False'')]\<rparr>)
                 else if reshape_method hp = ''slice'' then
                   (Inr \<lparr> predict_mask = 1, model_hparams = hp, model_bottleneck = shapes \<rparr>,
                    w\<lparr>logged := logged w @ [''Using slices for DVQ'']\<rparr>)
                 else (Inl (ValueError ''Unknown reshape method''), w))))
      else (Inr \<lparr> predict_mask = 1, model_hparams = hp, model_bottleneck = plain \<rparr>, w))"

subsection \<open>A preset and stand-ins for the library layers\<close>

text \<open>
  \<^verbatim>\<open>transformer_ae_small()\<close>, restricted to the fields of the record. The
  preset starts from \<^verbatim>\<open>transformer.transformer_small()\<close>, which supplies
  \<^verbatim>\<open>sampling_temp\<close> and \<^verbatim>\<open>max_length\<close>; the mode is set by the
  caller.
\<close>

definition transformer_ae_small :: "real \<Rightarrow> nat \<Rightarrow> mode \<Rightarrow> hparams" where
  "transformer_ae_small base_sampling_temp base_max_length md =
     \<lparr> hidden_size = 384, z_size = 14, num_decode_blocks = 1,
       sampling_temp = base_sampling_temp, logit_normalization = True, soft_em = False,
       task = ''translate'', drop_inputs = False, causal = True, mode = md,
       do_ae = True, do_mask = True, do_refine = False, use_predict_mask = True,
       do_attend_decompress = True, word_shuffle = 1 / 2, word_dropout = 0,
       num_compress_steps = 3, max_length = base_max_length,
       compress_filter_size = 2048 * 2, startup_steps = 10000,
       mask_startup_steps = 50000, unmasked_percentage = 1 / 10,
       bottleneck_kind = ''semhash'', sum_over_latents = False, prior_scale = 1,
       entropy_scale = 0, num_blocks = 1, num_residuals = 1, reshape_method = ''slice'',
       trainable_projections = False, ema = True \<rparr>"

text \<open>
  Stand-ins for the library layers, for running the model on small inputs: layers that
  map a tensor to a tensor return it unchanged, the \<open>k\<close>-th multinomial op draws
  \<open>k\<close> everywhere, the embedding of a code repeats each symbol over the 384 hidden
  units, beam search returns in every beam the initial symbol followed by
  \<open>1, 2, ...\<close>, and both decay schedules are at one.
\<close>

definition stub_embed :: "code \<Rightarrow> tensor" where
  "stub_embed c = map (map (\<lambda>v. replicate 384 (real_of_int (sint v)))) c"

definition stub_layers :: prims where
  "stub_layers =
     \<lparr> transformer_decoder = (\<lambda>name c enc bias t. t),
       image_decoder = (\<lambda>name t. t),
       dense = (\<lambda>name n t. t),
       dense_block = (\<lambda>i n t. t),
       argmax = (\<lambda>xs. 0),
       rsqrt = (\<lambda>x. 1),
       multinomial = (\<lambda>k i t. map (map (\<lambda>v. of_nat k)) t),
       sparse_xent = (\<lambda>c t. map (map (\<lambda>v. 1)) c),
       soft_xent = (\<lambda>c t. map (map (\<lambda>v. 1)) c),
       beam_search = (\<lambda>f ids beam len vocab.
          Inr (map (\<lambda>i. replicate beam (i # map of_nat [1..<Suc len])) ids)),
       encode = (\<lambda>name t space. (t, t)),
       compress = (\<lambda>t c. t),
       bottleneck = (\<lambda>t m. \<lparr> bn_dense = t, bn_discrete = map (map (\<lambda>v. 0)) t,
                                bn_extra_loss = 1, bn_embed = stub_embed,
                                bn_neg_q_entropy = 1 \<rparr>),
       shuffle_words = (\<lambda>r t. t),
       drop_words = (\<lambda>r t. t),
       pad_to_same_length = (\<lambda>t u n. t),
       add_positional_embedding = (\<lambda>name n t. t),
       residual_conv = (\<lambda>name n t. t),
       attend = (\<lambda>name n t u. t),
       decompress_step = (\<lambda>j r t. t),
       format_float = (\<lambda>x. ''0.5''),
       inverse_lin_decay = (\<lambda>n. 1),
       inverse_exp_decay = (\<lambda>n. 1),
       global_step = 0 \<rparr>"

text \<open>
  Draws for a batch of one with two positions, and the process state of a fresh
  interpreter (\<^verbatim>\<open>_DO_SUMMARIES = True\<close>, nothing registered or logged).
\<close>

definition stub_draws :: draws where
  "stub_draws = \<lparr> u_cond = [1 / 2], u_ptc = [1 / 2], u_unmask = 1 / 2,
                    u_mask = [[1 / 2, 1 / 4]] \<rparr>"

definition fresh_world :: world where
  "fresh_world = \<lparr> DO_SUMMARIES = True, summaries = [], logged = [] \<rparr>"



subsection \<open>Facts about the mixed-radix code\<close>

lemma sint_int32_const:
  assumes "- (2 ^ 31) \<le> n" "n < 2 ^ 31"
  shows "sint (int32_const n) = n"
  unfolding int32_const_def using assms
  by (simp add: sint_sbintrunc' signed_take_bit_int_eq_self)

lemma compose_blocks_of_int_aux:
  "sum_list (map (\<lambda>(i, s). s * word_of_int (B ^ i)) (List.enumerate n ds)) =
   (word_of_int (sum_list (map (\<lambda>(i, s). s * B ^ i) (List.enumerate n (map sint ds)))) :: int32)"
proof (induction ds arbitrary: n)
  case Nil
  show ?case by simp
next
  case (Cons d ds)
  have "sum_list (map (\<lambda>(i, s). s * word_of_int (B ^ i)) (List.enumerate n (d # ds))) =
        d * word_of_int (B ^ n) +
        sum_list (map (\<lambda>(i, s). s * word_of_int (B ^ i)) (List.enumerate (Suc n) ds))"
    by simp
  also have "\<dots> = word_of_int (sint d * B ^ n) +
        word_of_int (sum_list (map (\<lambda>(i, s). s * B ^ i) (List.enumerate (Suc n) (map sint ds))))"
    by (simp only: Cons.IH) simp
  also have "\<dots> = word_of_int (sum_list (map (\<lambda>(i, s). s * B ^ i)
                          (List.enumerate n (map sint (d # ds)))))"
    by simp
  finally show ?case .
qed

lemma compose_blocks_of_int:
  "compose_blocks B ds = word_of_int (compose_int B (map sint ds))"
  by (simp only: compose_blocks_def compose_int_def int32_const_def compose_blocks_of_int_aux)


lemma enumerate_weighted_shift:
  "sum_list (map (\<lambda>(i, s). s * B ^ i) (List.enumerate (Suc n) ds)) =
   B * sum_list (map (\<lambda>(i, s). s * (B::int) ^ i) (List.enumerate n ds))"
proof (induction ds arbitrary: n)
  case Nil
  show ?case by simp
next
  case (Cons d ds)
  show ?case by (simp add: Cons.IH algebra_simps)
qed

lemma compose_int_Nil: "compose_int B [] = 0"
  by (simp add: compose_int_def)

lemma compose_int_Cons: "compose_int B (d # ds) = d + B * compose_int B ds"
  by (simp add: compose_int_def enumerate_weighted_shift)

lemma compose_int_range:
  assumes "\<forall>d \<in> set ds. 0 \<le> d \<and> d < B"
  shows "0 \<le> compose_int B ds \<and> compose_int B ds < B ^ length ds"
  using assms
proof (induction ds)
  case Nil
  show ?case by (simp add: compose_int_Nil)
next
  case (Cons d ds)
  then have d: "0 \<le> d" "d < B" and ih: "0 \<le> compose_int B ds"
    "compose_int B ds < B ^ length ds"
    by simp_all
  have Bpos: "0 < B" using d by linarith
  have "compose_int B ds + 1 \<le> B ^ length ds" using ih by linarith
  then have "B * (compose_int B ds + 1) \<le> B * B ^ length ds"
    using Bpos by (simp add: mult_left_mono)
  then have "d + B * compose_int B ds < B * B ^ length ds"
    using d by (simp add: algebra_simps)
  moreover have "0 \<le> d + B * compose_int B ds"
    using d ih Bpos by simp
  ultimately show ?case by (simp add: compose_int_Cons)
qed

lemma digit_int_0_Cons:
  assumes "0 \<le> d" "d < B"
  shows "digit_int B 0 (d + B * c) = d"
  using assms by (simp add: digit_int_def)

lemma digit_int_Suc_Cons:
  assumes "0 \<le> d" "d < B"
  shows "digit_int B (Suc i) (d + B * c) = digit_int B i c"
proof -
  have q: "(d + B * c) div B = c" using assms by simp
  have "0 \<le> B ^ i" using assms by simp
  then have "(d + B * c) div (B * B ^ i) = ((d + B * c) div B) div B ^ i"
    by (rule zdiv_zmult2_eq)
  then have "(d + B * c) div (B * B ^ i) = c div B ^ i"
    by (simp only: q)
  then show ?thesis by (simp add: digit_int_def)
qed

lemma digit_int_compose:
  assumes "\<forall>d \<in> set ds. 0 \<le> d \<and> d < B" "i < length ds"
  shows "digit_int B i (compose_int B ds) = ds ! i"
  using assms
proof (induction ds arbitrary: i)
  case Nil
  then show ?case by simp
next
  case (Cons d ds)
  then have d: "0 \<le> d" "d < B" by simp_all
  show ?case
  proof (cases i)
    case 0
    then show ?thesis by (simp add: compose_int_Cons digit_int_0_Cons [OF d])
  next
    case (Suc j)
    with Cons.prems have "j < length ds" "\<forall>d \<in> set ds. 0 \<le> d \<and> d < B" by simp_all
    then have "digit_int B j (compose_int B ds) = ds ! j" by (rule Cons.IH [rotated])
    then show ?thesis using Suc by (simp add: compose_int_Cons digit_int_Suc_Cons [OF d])
  qed
qed

lemma power_below_int32:
  assumes "1 \<le> (B::int)" "B < 2 ^ 31" "B ^ k \<le> 2 ^ 31" "i < k"
  shows "B ^ i < 2 ^ 31"
proof (cases "B = 1")
  case True
  then show ?thesis by simp
next
  case False
  then have B2: "2 \<le> B" using assms(1) by simp
  have "B ^ Suc i \<le> B ^ k"
    using assms(1,4) by (intro power_increasing) simp_all
  then have "B ^ i * B \<le> 2 ^ 31" using assms(3) by (simp add: mult.commute)
  moreover have "B ^ i * 2 \<le> B ^ i * B"
    using B2 assms(1) by (intro mult_left_mono) simp_all
  ultimately have "B ^ i * 2 \<le> 2 ^ 31" by linarith
  then show ?thesis by simp
qed

lemma block_digit_of_int:
  assumes "0 \<le> V" "V < 2 ^ 31" "1 \<le> B" "B < 2 ^ 31" "B ^ i < 2 ^ 31"
  shows "block_digit B i (word_of_int V) = word_of_int (digit_int B i V)"
proof -
  have sV: "sint (word_of_int V :: int32) = V"
    using assms(1,2) sint_int32_const [of V] by (simp add: int32_const_def)
  have Bi0: "0 < B ^ i" using assms(3) by simp
  have sBi: "sint (int32_const (B ^ i)) = B ^ i"
    using Bi0 assms(5) by (intro sint_int32_const) simp_all
  have sB: "sint (int32_const B) = B"
    using assms(3,4) by (intro sint_int32_const) simp_all
  have q0: "0 \<le> V div B ^ i" using assms(1) Bi0 by (simp add: pos_imp_zdiv_nonneg_iff)
  have "V div B ^ i \<le> V div 1" using assms(1) Bi0 by (intro zdiv_mono2) simp_all
  then have "V div B ^ i \<le> V" by simp
  then have q1: "V div B ^ i < 2 ^ 31" using assms(2) by linarith
  have fd: "floordiv32 (word_of_int V) (int32_const (B ^ i)) = int32_const (V div B ^ i)"
    unfolding floordiv32_def sV sBi by (simp only: int32_const_def)
  have "sint (int32_const (V div B ^ i)) = V div B ^ i"
    using q0 q1 by (intro sint_int32_const) simp_all
  then have sq: "sint (floordiv32 (word_of_int V) (int32_const (B ^ i))) = V div B ^ i"
    by (simp only: fd)
  show ?thesis
    unfolding block_digit_def floormod32_def sq sB digit_int_def ..
qed

text \<open>
  The claim as the specification words it, for every tuple of digits below
  \<open>block_vocab_size\<close>, does not hold of the \<^verbatim>\<open>int32\<close> tensors the code
  composes: with \<open>block_vocab_size = 2 ^ 20\<close> (\<^verbatim>\<open>z_size = 40\<close>, two blocks) the
  digits \<open>[0, 4096]\<close> compose to \<open>4096 * 2 ^ 20 = 2 ^ 32\<close>, which wraps around to
  \<open>0\<close>, and are read back as \<open>[0, 0]\<close>.
\<close>

theorem mixed_radix_wraps_counterexample:
  "sint (0 :: int32) = 0 \<and> sint (4096 :: int32) = 4096 \<and> (4096 :: int) < 1048576 \<and>
   compose_blocks 1048576 [0, 4096] = 0 \<and>
   decompose_blocks 1048576 2 (compose_blocks 1048576 [0, 4096]) = [0, 0] \<and>
   [0, 0] \<noteq> [0, 4096 :: int32]"
  by (simp add: decompose_blocks_def compose_blocks_def block_digit_def floordiv32_def
      floormod32_def int32_const_def enumerate_eq_zip upt_rec)

text \<open>
  Claim C3. For every tuple of digits \<open>d\<^sub>0, ..., d\<^sub>k\<^sub>-\<^sub>1\<close> with
  \<open>0 \<le> d\<^sub>i < block_vocab_size\<close>, provided the code space fits the signed
  32-bit integers of the tensors (\<open>block_vocab_size ^ k \<le> 2 ^ 31\<close> and
  \<open>block_vocab_size < 2 ^ 31\<close>), decomposing the composed value
  \<open>\<Sum> d\<^sub>i * block_vocab_size ^ i\<close> by
  \<open>(value div block_vocab_size ^ i) mod block_vocab_size\<close> gives back the tuple.
\<close>

theorem mixed_radix_roundtrip:
  assumes "\<forall>d \<in> set ds. 0 \<le> sint d \<and> sint d < block_vocab_size"
    and "block_vocab_size ^ length ds \<le> 2 ^ 31" and "block_vocab_size < 2 ^ 31"
  shows "decompose_blocks block_vocab_size (length ds) (compose_blocks block_vocab_size ds) = ds"
proof (rule nth_equalityI)
  show "length (decompose_blocks block_vocab_size (length ds)
          (compose_blocks block_vocab_size ds)) = length ds"
    by (simp add: decompose_blocks_def)
next
  fix i
  assume "i < length (decompose_blocks block_vocab_size (length ds)
                (compose_blocks block_vocab_size ds))"
  then have i: "i < length ds" by (simp add: decompose_blocks_def)
  let ?B = block_vocab_size
  let ?is = "map sint ds"
  have digs: "\<forall>d \<in> set ?is. 0 \<le> d \<and> d < ?B" using assms(1) by simp
  have "ds ! i \<in> set ds" using i by simp
  then have B1: "1 \<le> ?B" using assms(1) by fastforce
  have rng: "0 \<le> compose_int ?B ?is \<and> compose_int ?B ?is < ?B ^ length ?is"
    using digs by (rule compose_int_range)
  then have V0: "0 \<le> compose_int ?B ?is" and V1: "compose_int ?B ?is < 2 ^ 31"
    using assms(2) by simp_all
  have Bi: "?B ^ i < 2 ^ 31" using B1 assms(3) assms(2) i by (rule power_below_int32)
  have "block_digit ?B i (compose_blocks ?B ds) = word_of_int (digit_int ?B i (compose_int ?B ?is))"
    unfolding compose_blocks_of_int using V0 V1 B1 assms(3) Bi by (rule block_digit_of_int)
  also have "\<dots> = word_of_int (?is ! i)"
    using digs i by (simp add: digit_int_compose)
  also have "\<dots> = ds ! i" using i by simp
  finally show "decompose_blocks ?B (length ds) (compose_blocks ?B ds) ! i = ds ! i"
    using i by (simp add: decompose_blocks_def)
qed

theorem mixed_radix_roundtrip_witness:
  "compose_blocks 128 [3, 0, 127] = 2080771 \<and>
   decompose_blocks 128 3 (compose_blocks 128 [3, 0, 127]) = [3, 0, 127]"
proof -
  have h: "\<forall>d \<in> set [3, 0, 127 :: int32]. 0 \<le> sint d \<and> sint d < 128" by simp
  have b: "(128::int) ^ length [3, 0, 127 :: int32] \<le> 2 ^ 31" by simp
  have c: "(128::int) < 2 ^ 31" by simp
  have v: "compose_blocks 128 [3, 0, 127] = 2080771"
    by (simp add: compose_blocks_def int32_const_def enumerate_eq_zip upt_rec)
  have l: "length [3, 0, 127 :: int32] = 3" by simp
  have r: "decompose_blocks 128 3 (compose_blocks 128 [3, 0, 127]) = [3, 0, 127]"
    using mixed_radix_roundtrip [OF h b c] by (simp only: l)
  show ?thesis using v r by (rule conjI)
qed

subsection \<open>Facts about the latent sampler\<close>

lemma length_next_bit:
  assumes "next_bit P inputs ed embed_fn hp prev i = Inr c"
  shows "length c \<le> length prev"
  using assms
  by (auto simp: next_bit_def Let_def split: sum.splits prod.splits)

lemma next_bit_keeps_prefix:
  assumes "next_bit P inputs ed embed_fn hp prev i = Inr c"
    and "b < length c" and "p \<le> i" and "p < length (prev ! b)"
  shows "c ! b ! p = prev ! b ! p \<and> p < length (c ! b)"
  using assms
  by (auto simp: next_bit_def Let_def nth_append split: sum.splits prod.splits)

lemma length_refine_rounds:
  assumes "refine_rounds P inputs ed embed_fn hp rounds c = Inr c'"
  shows "length c' \<le> length c"
  using assms
proof (induction rounds arbitrary: c)
  case Nil
  then show ?case by simp
next
  case (Cons i rounds)
  from Cons.prems obtain c1 where
    s1: "next_bit P inputs ed embed_fn hp c i = Inr c1" and
    s2: "refine_rounds P inputs ed embed_fn hp rounds c1 = Inr c'"
    by (auto split: sum.splits)
  have "length c1 \<le> length c" using s1 by (rule length_next_bit)
  moreover have "length c' \<le> length c1" using s2 by (rule Cons.IH)
  ultimately show ?case by simp
qed

lemma refine_rounds_keeps:
  assumes "refine_rounds P inputs ed embed_fn hp rounds c = Inr c'"
    and "\<forall>i \<in> set rounds. p \<le> i" and "b < length c'" and "p < length (c ! b)"
  shows "c' ! b ! p = c ! b ! p \<and> p < length (c' ! b)"
  using assms
proof (induction rounds arbitrary: c)
  case Nil
  then show ?case by simp
next
  case (Cons i rounds)
  from Cons.prems(1) obtain c1 where
    s1: "next_bit P inputs ed embed_fn hp c i = Inr c1" and
    s2: "refine_rounds P inputs ed embed_fn hp rounds c1 = Inr c'"
    by (auto split: sum.splits)
  have all: "\<forall>i \<in> set rounds. p \<le> i" and pi: "p \<le> i" using Cons.prems(2) by simp_all
  have "length c' \<le> length c1" using s2 by (rule length_refine_rounds)
  then have b1: "b < length c1" using Cons.prems(3) by simp
  have k1: "c1 ! b ! p = c ! b ! p \<and> p < length (c1 ! b)"
    using s1 b1 pi Cons.prems(4) by (rule next_bit_keeps_prefix)
  then have "p < length (c1 ! b)" by simp
  with s2 all Cons.prems(3) have "c' ! b ! p = c1 ! b ! p \<and> p < length (c' ! b)"
    by (rule Cons.IH)
  with k1 show ?case by simp
qed

lemma refine_rounds_append:
  "refine_rounds P inputs ed embed_fn hp (xs @ ys) c =
     (case refine_rounds P inputs ed embed_fn hp xs c of
        Inl e \<Rightarrow> Inl e
      | Inr c' \<Rightarrow> refine_rounds P inputs ed embed_fn hp ys c')"
  by (induction xs arbitrary: c) (auto split: sum.splits)

lemma next_bit_row:
  assumes "next_bit P inputs ed embed_fn hp prev i = Inr c"
  shows "\<exists>pred new l.
           decode_transformer P inputs ed (embed_fn prev) hp ''extra'' None True = Inr pred \<and>
           ae_latent_softmax P (Suc i) pred None hp = Inr (new, l) \<and>
           length c = min (length prev) (length new) \<and>
           (\<forall>b < length c. c ! b = take (Suc i) (prev ! b) @ drop (Suc i) (new ! b))"
  using assms
  by (auto simp: next_bit_def Let_def split: sum.splits prod.splits)

lemma next_bit_overwrites:
  assumes "next_bit P inputs ed embed_fn hp prev i = Inr c"
  shows "\<exists>pred new l.
           decode_transformer P inputs ed (embed_fn prev) hp ''extra'' None True = Inr pred \<and>
           ae_latent_softmax P (Suc i) pred None hp = Inr (new, l) \<and>
           (\<forall>b j. b < length c \<longrightarrow> i < j \<longrightarrow> i < length (prev ! b) \<longrightarrow> j < length (c ! b)
                  \<longrightarrow> c ! b ! j = new ! b ! j)"
proof -
  from next_bit_row [OF assms] obtain pred new l where
    d: "decode_transformer P inputs ed (embed_fn prev) hp ''extra'' None True = Inr pred" and
    s: "ae_latent_softmax P (Suc i) pred None hp = Inr (new, l)" and
    r: "\<forall>b < length c. c ! b = take (Suc i) (prev ! b) @ drop (Suc i) (new ! b)"
    by blast
  have "c ! b ! j = new ! b ! j"
    if "b < length c" "i < j" "i < length (prev ! b)" "j < length (c ! b)" for b j
  proof -
    have row: "c ! b = take (Suc i) (prev ! b) @ drop (Suc i) (new ! b)" using r that(1) by simp
    have len: "length (take (Suc i) (prev ! b)) = Suc i" using that(3) by simp
    have "c ! b ! j = drop (Suc i) (new ! b) ! (j - Suc i)"
      using that(2) by (simp only: row nth_append len) simp
    also have "\<dots> = new ! b ! j"
      using that(2) that(4) row len by simp
    finally show ?thesis .
  qed
  with d s show ?thesis by blast
qed

lemma stub_decode:
  "decode_transformer stub_layers enc bias t (transformer_ae_small st ml md) name None c = Inr t"
  by (simp add: decode_transformer_def transformer_ae_small_def stub_layers_def)

lemma stub_softmax:
  "ae_latent_softmax stub_layers k t None (transformer_ae_small 1 ml md) =
     Inr (map (map (\<lambda>v. of_nat k)) t, None)"
  by (simp add: ae_latent_softmax_def transformer_ae_small_def stub_layers_def
      multinomial_sample_def normalize_logits_def Let_def)

lemma stub_next_bit:
  "next_bit stub_layers enc bias stub_embed (transformer_ae_small 1 ml md) c i =
     Inr (map2 (@) (map (take (i + 1)) c) (map (drop (i + 1)) (map (map (\<lambda>v. of_nat (Suc i))) c)))"
  by (simp add: next_bit_def stub_decode stub_softmax stub_embed_def comp_def)

lemma stub_rounds_2:
  "refine_rounds stub_layers None None stub_embed (transformer_ae_small 1 256 PREDICT) [0..<2]
     [[0, 0, 0, 0]] = Inr [[0, 1, 2, 2]]"
  by (simp add: upt_rec stub_next_bit)

lemma stub_rounds_3:
  "refine_rounds stub_layers None None stub_embed (transformer_ae_small 1 256 PREDICT) [0..<3]
     [[0, 0, 0, 0]] = Inr [[0, 1, 2, 3]]"
  by (simp add: upt_rec stub_next_bit)


lemma stub_first_prediction:
  "first_prediction stub_layers t enc bias (transformer_ae_small 1 ml md) =
     Inr (map (map (\<lambda>v. 0)) t)"
  by (simp add: first_prediction_def stub_decode stub_softmax)

lemma stub_beam:
  "ae_latent_sample_beam stub_layers t (Some enc) (Some bias) embed_fn hp =
     Inr (map (\<lambda>r. map of_nat [1..<Suc (dim1 t)]) t)"
  by (simp add: ae_latent_sample_beam_def stub_layers_def Let_def map_replicate_const comp_def)

lemma logged_changes: "w\<lparr>logged := logged w @ [m]\<rparr> \<noteq> w"
proof
  assume "w\<lparr>logged := logged w @ [m]\<rparr> = w"
  then have "logged (w\<lparr>logged := logged w @ [m]\<rparr>) = logged w" by simp
  then show False by simp
qed

text \<open>
  Claim C2. The latent sampler takes the beam-search path exactly when
  \<^verbatim>\<open>num_decode_blocks < 2\<close> and the sampling temperature is exactly zero, and
  the iterative-refinement path for every other configuration. On the beam-search path
  it returns the first beam that beam search (beam size one, from all-zeros initial
  symbols, for the length of the latents, over \<open>2 ^ z_size\<close> symbols) finds, without
  the added initial symbol, or the failure of tiling absent inputs; in particular so
  for one decode block at temperature zero. On the iterative path it returns the
  refinement rounds over the first prediction. The line the beam branch writes to the
  log tells the two paths apart.
\<close>

theorem latent_sampler_path:
  "(num_decode_blocks hp < 2 \<and> sampling_temp hp = 0 \<longrightarrow>
      ae_latent_sample P latents_dense (Some enc) (Some bias) embed_fn iters hp w =
        ((case beam_search P (symbols_to_logits_fn P (Some enc) (Some bias) embed_fn hp)
                 (replicate (length latents_dense) 0) 1 (dim1 latents_dense) (2 ^ z_size hp) of
            Inl e \<Rightarrow> Inl e
          | Inr ids \<Rightarrow> Inr (map (drop 1) (map (\<lambda>beams. beams ! 0) ids))),
         w\<lparr>logged := logged w @ [''Running beam-search for latents with beam size 1.'']\<rparr>) \<and>
      ae_latent_sample P latents_dense None ed embed_fn iters hp w =
        (Inl (ValueError ''None values not supported.''),
         w\<lparr>logged := logged w @ [''Running beam-search for latents with beam size 1.'']\<rparr>) \<and>
      ae_latent_sample P latents_dense inputs None embed_fn iters hp w =
        (Inl (ValueError ''None values not supported.''),
         w\<lparr>logged := logged w @ [''Running beam-search for latents with beam size 1.'']\<rparr>)) \<and>
   (\<not> (num_decode_blocks hp < 2 \<and> sampling_temp hp = 0) \<longrightarrow>
      ae_latent_sample P latents_dense inputs ed embed_fn iters hp w =
        ((case first_prediction P latents_dense inputs ed hp of
            Inl e \<Rightarrow> Inl e
          | Inr c0 \<Rightarrow> refine_rounds P inputs ed embed_fn hp [0..<iters] c0), w)) \<and>
   (num_decode_blocks hp = 1 \<and> sampling_temp hp = 0 \<longrightarrow>
      fst (ae_latent_sample P latents_dense (Some enc) (Some bias) embed_fn iters hp w) =
        (case beam_search P (symbols_to_logits_fn P (Some enc) (Some bias) embed_fn hp)
                (replicate (length latents_dense) 0) 1 (dim1 latents_dense) (2 ^ z_size hp) of
           Inl e \<Rightarrow> Inl e
         | Inr ids \<Rightarrow> Inr (map (drop 1) (map (\<lambda>beams. beams ! 0) ids)))) \<and>
   (snd (ae_latent_sample P latents_dense inputs ed embed_fn iters hp w) \<noteq> w) =
     (num_decode_blocks hp < 2 \<and> sampling_temp hp = 0)"
proof -
  let ?log = "w\<lparr>logged := logged w @ [''Running beam-search for latents with beam size 1.'']\<rparr>"
  let ?beam = "case beam_search P (symbols_to_logits_fn P (Some enc) (Some bias) embed_fn hp)
                 (replicate (length latents_dense) 0) 1 (dim1 latents_dense) (2 ^ z_size hp) of
            Inl e \<Rightarrow> Inl e
          | Inr ids \<Rightarrow> Inr (map (drop 1) (map (\<lambda>beams. beams ! 0) ids))"
  have call: "ae_latent_sample P latents_dense i' e' embed_fn iters hp w =
        (ae_latent_sample_beam P latents_dense i' e' embed_fn hp, ?log)"
    if "num_decode_blocks hp < 2 \<and> sampling_temp hp = 0" for i' e'
    using that by (simp add: ae_latent_sample_def)
  have some: "ae_latent_sample_beam P latents_dense (Some enc) (Some bias) embed_fn hp = ?beam"
    by (simp add: ae_latent_sample_beam_def Let_def)
  have none1: "ae_latent_sample_beam P latents_dense None ed embed_fn hp =
                 Inl (ValueError ''None values not supported.'')"
    by (simp add: ae_latent_sample_beam_def Let_def)
  have none2: "ae_latent_sample_beam P latents_dense inputs None embed_fn hp =
                 Inl (ValueError ''None values not supported.'')"
    by (simp add: ae_latent_sample_beam_def Let_def split: option.splits)
  have beam: "ae_latent_sample P latents_dense (Some enc) (Some bias) embed_fn iters hp w =
                (?beam, ?log) \<and>
              ae_latent_sample P latents_dense None ed embed_fn iters hp w =
                (Inl (ValueError ''None values not supported.''), ?log) \<and>
              ae_latent_sample P latents_dense inputs None embed_fn iters hp w =
                (Inl (ValueError ''None values not supported.''), ?log)"
    if c: "num_decode_blocks hp < 2 \<and> sampling_temp hp = 0"
    by (simp only: call [OF c] some none1 none2)
  have iter: "ae_latent_sample P latents_dense inputs ed embed_fn iters hp w =
        ((case first_prediction P latents_dense inputs ed hp of
            Inl e \<Rightarrow> Inl e
          | Inr c0 \<Rightarrow> refine_rounds P inputs ed embed_fn hp [0..<iters] c0), w)"
    if "\<not> (num_decode_blocks hp < 2 \<and> sampling_temp hp = 0)"
    unfolding ae_latent_sample_def by (simp only: that if_False split: sum.splits) simp
  have one: "fst (ae_latent_sample P latents_dense (Some enc) (Some bias) embed_fn iters hp w) =
               ?beam"
    if "num_decode_blocks hp = 1 \<and> sampling_temp hp = 0"
  proof -
    from that have c: "num_decode_blocks hp < 2 \<and> sampling_temp hp = 0" by simp
    show ?thesis by (simp only: call [OF c] some fst_conv)
  qed
  have obs: "(snd (ae_latent_sample P latents_dense inputs ed embed_fn iters hp w) \<noteq> w) =
     (num_decode_blocks hp < 2 \<and> sampling_temp hp = 0)"
  proof (cases "num_decode_blocks hp < 2 \<and> sampling_temp hp = 0")
    case True
    then show ?thesis using call [OF True] logged_changes by simp
  next
    case False
    then show ?thesis using iter by simp
  qed
  show ?thesis using beam iter one obs by blast
qed

theorem latent_sampler_path_witness:
  "ae_latent_sample stub_layers [replicate 4 (replicate 384 0)]
       (Some [[replicate 384 1, replicate 384 2]]) (Some [[[0, 0]]]) stub_embed 16
       (transformer_ae_small 0 256 PREDICT) fresh_world =
     (Inr [[1, 2, 3, 4]],
      \<lparr>DO_SUMMARIES = True, summaries = [],
        logged = [''Running beam-search for latents with beam size 1.'']\<rparr>) \<and>
   ae_latent_sample stub_layers [replicate 4 (replicate 384 0)]
       None None stub_embed 16
       (transformer_ae_small 0 256 PREDICT) fresh_world =
     (Inl (ValueError ''None values not supported.''),
      \<lparr>DO_SUMMARIES = True, summaries = [],
        logged = [''Running beam-search for latents with beam size 1.'']\<rparr>) \<and>
   ae_latent_sample stub_layers [replicate 4 (replicate 384 0)]
       (Some [[replicate 384 1, replicate 384 2]]) (Some [[[0, 0]]]) stub_embed 16
       (transformer_ae_small 1 256 PREDICT) fresh_world =
     (Inr [[0, 1, 2, 3]], fresh_world)"
proof -
  let ?t = "[replicate 4 (replicate 384 0)] :: tensor"
  let ?enc = "[[replicate 384 1, replicate 384 2]] :: tensor"
  let ?bias = "[[[0, 0]]] :: tensor"
  have h0: "num_decode_blocks (transformer_ae_small 0 256 PREDICT) < 2 \<and>
           sampling_temp (transformer_ae_small 0 256 PREDICT) = 0"
    by (simp add: transformer_ae_small_def)
  have h1: "\<not> (num_decode_blocks (transformer_ae_small 1 256 PREDICT) < 2 \<and>
           sampling_temp (transformer_ae_small 1 256 PREDICT) = 0)"
    by (simp add: transformer_ae_small_def)
  have b: "beam_search stub_layers
             (symbols_to_logits_fn stub_layers (Some ?enc) (Some ?bias) stub_embed
                (transformer_ae_small 0 256 PREDICT))
             (replicate (length ?t) 0) 1 (dim1 ?t)
             (2 ^ z_size (transformer_ae_small 0 256 PREDICT)) = Inr [[[0, 1, 2, 3, 4]]]"
    by (simp add: stub_layers_def dim1_def upt_rec)
  have f: "first_prediction stub_layers ?t (Some ?enc) (Some ?bias)
             (transformer_ae_small 1 256 PREDICT) = Inr [[0, 0, 0, 0]]"
    by (simp add: stub_first_prediction eval_nat_numeral)
  have r: "refine_rounds stub_layers (Some ?enc) (Some ?bias) stub_embed
             (transformer_ae_small 1 256 PREDICT) [0..<16] [[0, 0, 0, 0]] = Inr [[0, 1, 2, 3]]"
    by (simp add: upt_rec stub_next_bit)
  have w0: "fresh_world\<lparr>logged := logged fresh_world @
               [''Running beam-search for latents with beam size 1.'']\<rparr> =
            \<lparr>DO_SUMMARIES = True, summaries = [],
              logged = [''Running beam-search for latents with beam size 1.'']\<rparr>"
    by (simp add: fresh_world_def)
  have A: "ae_latent_sample stub_layers ?t (Some ?enc) (Some ?bias) stub_embed 16
       (transformer_ae_small 0 256 PREDICT) fresh_world =
     (Inr [[1, 2, 3, 4]],
      \<lparr>DO_SUMMARIES = True, summaries = [],
        logged = [''Running beam-search for latents with beam size 1.'']\<rparr>)"
    using latent_sampler_path [of "transformer_ae_small 0 256 PREDICT" stub_layers
        ?t ?enc ?bias stub_embed 16 fresh_world None None] h0 b w0
    by simp
  have B: "ae_latent_sample stub_layers ?t None None stub_embed 16
       (transformer_ae_small 0 256 PREDICT) fresh_world =
     (Inl (ValueError ''None values not supported.''),
      \<lparr>DO_SUMMARIES = True, summaries = [],
        logged = [''Running beam-search for latents with beam size 1.'']\<rparr>)"
    using latent_sampler_path [of "transformer_ae_small 0 256 PREDICT" stub_layers
        ?t ?enc ?bias stub_embed 16 fresh_world None None] h0 w0
    by simp
  have C: "ae_latent_sample stub_layers ?t (Some ?enc) (Some ?bias) stub_embed 16
       (transformer_ae_small 1 256 PREDICT) fresh_world = (Inr [[0, 1, 2, 3]], fresh_world)"
    using latent_sampler_path [of "transformer_ae_small 1 256 PREDICT" stub_layers
        ?t ?enc ?bias stub_embed 16 fresh_world "Some ?bias" "Some ?enc"] h1 f r
    by simp
  show ?thesis using A B C by simp
qed

text \<open>
  Claim C6. Iterative refinement starts from one full forward prediction; round
  \<open>i\<close> keeps positions \<open>0..i\<close> of the previous round's code; hence once round
  \<open>p\<close> has completed (after \<open>m > p\<close> rounds), no later round changes position
  \<open>p\<close>.
\<close>

theorem refinement_commits_prefix:
  "(\<not> (num_decode_blocks hp < 2 \<and> sampling_temp hp = 0) \<longrightarrow>
      fst (ae_latent_sample P latents_dense inputs ed embed_fn iters hp w) =
        (case first_prediction P latents_dense inputs ed hp of
           Inl e \<Rightarrow> Inl e
         | Inr c0 \<Rightarrow> refine_rounds P inputs ed embed_fn hp [0..<iters] c0)) \<and>
   (\<forall>prev i c b j.
      next_bit P inputs ed embed_fn hp prev i = Inr c \<longrightarrow> b < length c \<longrightarrow> j \<le> i \<longrightarrow>
      j < length (prev ! b) \<longrightarrow> c ! b ! j = prev ! b ! j) \<and>
   (\<forall>c0 m n cm cn b p.
      refine_rounds P inputs ed embed_fn hp [0..<m] c0 = Inr cm \<longrightarrow>
      refine_rounds P inputs ed embed_fn hp [0..<n] c0 = Inr cn \<longrightarrow>
      p < m \<longrightarrow> m \<le> n \<longrightarrow> b < length cn \<longrightarrow> p < length (cm ! b) \<longrightarrow>
      cn ! b ! p = cm ! b ! p)"
proof (intro conjI allI impI)
  assume "\<not> (num_decode_blocks hp < 2 \<and> sampling_temp hp = 0)"
  then show "fst (ae_latent_sample P latents_dense inputs ed embed_fn iters hp w) =
        (case first_prediction P latents_dense inputs ed hp of
           Inl e \<Rightarrow> Inl e
         | Inr c0 \<Rightarrow> refine_rounds P inputs ed embed_fn hp [0..<iters] c0)"
    unfolding ae_latent_sample_def by (simp only: if_False split: sum.splits) simp
next
  fix prev i c b j
  assume "next_bit P inputs ed embed_fn hp prev i = Inr c" "b < length c" "j \<le> i"
    "j < length (prev ! b)"
  then show "c ! b ! j = prev ! b ! j"
    using next_bit_keeps_prefix by blast
next
  fix c0 m n cm cn b p
  assume m: "refine_rounds P inputs ed embed_fn hp [0..<m] c0 = Inr cm"
    and n: "refine_rounds P inputs ed embed_fn hp [0..<n] c0 = Inr cn"
    and pm: "p < m" and mn: "m \<le> n" and b: "b < length cn" and p: "p < length (cm ! b)"
  have "[0..<n] = [0..<m] @ [m..<n]" using mn by (metis le0 upt_add_eq_append le_Suc_ex)
  then have "refine_rounds P inputs ed embed_fn hp [m..<n] cm = Inr cn"
    using m n by (simp add: refine_rounds_append)
  moreover have "\<forall>i \<in> set [m..<n]. p \<le> i" using pm by simp
  ultimately show "cn ! b ! p = cm ! b ! p"
    using b p refine_rounds_keeps by blast
qed

theorem refinement_commits_prefix_witness:
  "refine_rounds stub_layers None None stub_embed (transformer_ae_small 1 256 PREDICT) [0..<2]
     [[0, 0, 0, 0]] = Inr [[0, 1, 2, 2]] \<and>
   refine_rounds stub_layers None None stub_embed (transformer_ae_small 1 256 PREDICT) [0..<3]
     [[0, 0, 0, 0]] = Inr [[0, 1, 2, 3]] \<and>
   [[0, 1, 2, 3 :: int32]] ! 0 ! 1 = [[0, 1, 2, 2]] ! 0 ! 1"
proof -
  have "[[0, 1, 2, 3 :: int32]] ! 0 ! 1 = [[0, 1, 2, 2]] ! 0 ! 1"
    using refinement_commits_prefix [of "transformer_ae_small 1 256 PREDICT" stub_layers
        undefined None None stub_embed undefined undefined]
      stub_rounds_2 stub_rounds_3
    by (elim conjE allE [where x = "[[0, 0, 0, 0]]"]) auto
  then show ?thesis using stub_rounds_2 stub_rounds_3 by simp
qed

subsection \<open>Facts about model construction\<close>

text \<open>
  Claim C9 as stated: every configuration whose \<^verbatim>\<open>reshape_method\<close> is neither
  \<^verbatim>\<open>"slice"\<close> nor \<^verbatim>\<open>"project"\<close> makes the constructor raise. It does
  not hold: with the preset's \<^verbatim>\<open>semhash\<close> bottleneck the constructor never looks
  at \<^verbatim>\<open>reshape_method\<close>.
\<close>

theorem reshape_method_unchecked_counterexample:
  "\<not> (\<forall>hp w. reshape_method hp \<notin> {''slice'', ''project''} \<longrightarrow>
         (\<exists>e. fst (TransformerAE_init hp w) = Inl e))"
proof
  assume a: "\<forall>hp w. reshape_method hp \<notin> {''slice'', ''project''} \<longrightarrow>
         (\<exists>e. fst (TransformerAE_init hp w) = Inl e)"
  let ?hp = "(transformer_ae_small 1 256 TRAIN)\<lparr>reshape_method := ''cube''\<rparr>"
  have "reshape_method ?hp \<notin> {''slice'', ''project''}" by simp
  with a have "\<exists>e. fst (TransformerAE_init ?hp \<lparr>DO_SUMMARIES = True, summaries = [], logged = []\<rparr>) = Inl e"
    by blast
  then show False
    by (simp add: TransformerAE_init_def transformer_ae_small_def)
qed

text \<open>
  Claim C9, amended. For every configuration whose \<^verbatim>\<open>bottleneck_kind\<close> is
  \<^verbatim>\<open>"dvq"\<close> or \<^verbatim>\<open>"gumbel-softmax-dvq"\<close> and whose
  \<^verbatim>\<open>reshape_method\<close> is neither \<^verbatim>\<open>"slice"\<close> nor
  \<^verbatim>\<open>"project"\<close>, the constructor raises and leaves the process state as it was;
  the error is \<^verbatim>\<open>ValueError("Unknown reshape method")\<close> whenever the block
  arithmetic before the check goes through.
\<close>

theorem reshape_method_checked_for_dvq:
  assumes "bottleneck_kind hp = ''dvq'' \<or> bottleneck_kind hp = ''gumbel-softmax-dvq''"
    and "reshape_method hp \<noteq> ''slice''" and "reshape_method hp \<noteq> ''project''"
  shows "(\<exists>e. TransformerAE_init hp w = (Inl e, w)) \<and>
         (num_residuals hp \<noteq> 0 \<and> num_blocks hp \<noteq> 0 \<and>
          real (z_size hp) / real (num_residuals hp) / real (num_blocks hp) < 1024 \<longrightarrow>
            TransformerAE_init hp w = (Inl (ValueError ''Unknown reshape method''), w))"
  using assms by (auto simp: TransformerAE_init_def Let_def)

theorem reshape_method_checked_for_dvq_witness:
  "TransformerAE_init ((transformer_ae_small 1 256 TRAIN)\<lparr>bottleneck_kind := ''dvq'', reshape_method := ''cube''\<rparr>)
     \<lparr>DO_SUMMARIES = True, summaries = [], logged = []\<rparr> =
   (Inl (ValueError ''Unknown reshape method''), \<lparr>DO_SUMMARIES = True, summaries = [], logged = []\<rparr>)"
  using reshape_method_checked_for_dvq [of "(transformer_ae_small 1 256 TRAIN)\<lparr>bottleneck_kind := ''dvq'', reshape_method := ''cube''\<rparr>"
      "\<lparr>DO_SUMMARIES = True, summaries = [], logged = []\<rparr>"]
  by (simp add: transformer_ae_small_def)

text \<open>For every other bottleneck kind the constructor succeeds, whatever the reshape method.\<close>

lemma init_other_kinds:
  assumes "bottleneck_kind hp \<noteq> ''dvq''" "bottleneck_kind hp \<noteq> ''gumbel-softmax-dvq''"
  shows "\<exists>m. TransformerAE_init hp w = (Inr m, w)"
  using assms by (simp add: TransformerAE_init_def)

subsection \<open>Facts about the masking step\<close>

text \<open>
  Claim C7. For every value of the decay schedules (hence every global step) and every
  uniform draw, the masking weight derived from the schedule,
  \<^verbatim>\<open>inverse_lin_decay(mask_startup_steps) * inverse_exp_decay(mask_startup_steps // 4)\<close>
  less the draw times \<^verbatim>\<open>unmasked_percentage\<close> unless refining, is clamped
  into \<open>[0, 1]\<close>; it is the weight the mask is drawn against whenever
  \<^verbatim>\<open>predict_mask\<close> does not replace it.
\<close>

theorem schedule_masking_clamped:
  "schedule_masking P hp u =
     min (max (inverse_lin_decay P (mask_startup_steps hp) *
               inverse_exp_decay P (mask_startup_steps hp div 4) -
               (if do_refine hp then 0 else u * unmasked_percentage hp)) 0) 1 \<and>
   0 \<le> schedule_masking P hp u \<and> schedule_masking P hp u \<le> 1 \<and>
   (\<not> use_predict_mask hp \<and> mode hp \<noteq> PREDICT \<longrightarrow>
      masking_weight P hp pm u = schedule_masking P hp u)"
  by (simp add: schedule_masking_def masking_weight_def Let_def)

theorem schedule_masking_clamped_witness:
  "masking_weight stub_layers ((transformer_ae_small 1 256 TRAIN)\<lparr>use_predict_mask := False\<rparr>) 1 (1 / 2)
     = 19 / 20 \<and>
   schedule_masking stub_layers ((transformer_ae_small 1 256 TRAIN)\<lparr>use_predict_mask := False\<rparr>) (1 / 2)
     = 19 / 20"
  using schedule_masking_clamped [of stub_layers
      "(transformer_ae_small 1 256 TRAIN)\<lparr>use_predict_mask := False\<rparr>" "1 / 2" 1]
  by (simp add: transformer_ae_small_def stub_layers_def)

lemma blend_nth:
  assumes "b < length msk" "b < length t" "b < length d"
    and "p < length (msk ! b)" "p < length (t ! b)" "p < length (d ! b)"
    and "k < length (t ! b ! p)" "k < length (d ! b ! p)"
  shows "blend msk t d ! b ! p ! k =
           msk ! b ! p * t ! b ! p ! k + (1 - msk ! b ! p) * d ! b ! p ! k"
  using assms by (simp add: blend_def)

lemma position_mask_nth:
  assumes "b < length us" "p < length (us ! b)"
  shows "position_mask m us ! b ! p = (if m < us ! b ! p then 1 else 0)"
  using assms by (simp add: position_mask_def)

lemma position_mask_length:
  "length (position_mask m us) = length us"
  "b < length us \<Longrightarrow> length (position_mask m us ! b) = length (us ! b)"
  by (simp_all add: position_mask_def)

text \<open>
  Claim C1, amended. In \<^verbatim>\<open>PREDICT\<close> mode the masking weight is the supplied
  \<^verbatim>\<open>predict_mask\<close>; every position is blended as
  \<open>mask * target + (1 - mask) * decompressed_latent\<close>, where the position's mask
  is one exactly when the weight is below the position's uniform draw. So with
  \<^verbatim>\<open>predict_mask = 1.0\<close> every position (draws are below one) takes the
  decompressed latent, and with \<^verbatim>\<open>predict_mask = 0.0\<close> every position with
  a positive draw takes the ground-truth target.
\<close>

theorem predict_mask_blend:
  assumes "mode hp = PREDICT"
    and "b < length us" "b < length t" "b < length d"
    and "p < length (us ! b)" "p < length (t ! b)" "p < length (d ! b)"
    and "k < length (t ! b ! p)" "k < length (d ! b ! p)"
  shows "masking_weight P hp pm u = pm \<and>
         blend (position_mask (masking_weight P hp pm u) us) t d ! b ! p ! k =
           to_float (pm < us ! b ! p) * t ! b ! p ! k +
           (1 - to_float (pm < us ! b ! p)) * d ! b ! p ! k \<and>
         (pm = 1 \<and> us ! b ! p < 1 \<longrightarrow>
            blend (position_mask (masking_weight P hp pm u) us) t d ! b ! p ! k = d ! b ! p ! k) \<and>
         (pm = 0 \<and> 0 < us ! b ! p \<longrightarrow>
            blend (position_mask (masking_weight P hp pm u) us) t d ! b ! p ! k = t ! b ! p ! k)"
proof -
  have w: "masking_weight P hp pm u = pm"
    using assms(1) by (simp add: masking_weight_def Let_def)
  have m: "position_mask pm us ! b ! p = to_float (pm < us ! b ! p)"
    using assms(2,5) by (simp add: position_mask_nth to_float_def)
  have e: "blend (position_mask pm us) t d ! b ! p ! k =
             to_float (pm < us ! b ! p) * t ! b ! p ! k +
             (1 - to_float (pm < us ! b ! p)) * d ! b ! p ! k"
    using assms blend_nth [of b "position_mask pm us" t d p k]
    by (simp add: position_mask_length m)
  show ?thesis unfolding w using e by (auto simp: to_float_def)
qed

theorem predict_mask_blend_witness:
  "blend (position_mask (masking_weight stub_layers (transformer_ae_small 1 256 PREDICT) 1 0)
            [[1 / 2]]) [[[5]]] [[[7]]] ! 0 ! 0 ! 0 = 7 \<and>
   blend (position_mask (masking_weight stub_layers (transformer_ae_small 1 256 PREDICT) 0 0)
            [[1 / 2]]) [[[5]]] [[[7]]] ! 0 ! 0 ! 0 = 5"
proof -
  have h: "mode (transformer_ae_small 1 256 PREDICT) = PREDICT"
    by (simp add: transformer_ae_small_def)
  have one: "blend (position_mask (masking_weight stub_layers (transformer_ae_small 1 256 PREDICT) 1 0)
            [[1 / 2]]) [[[5]]] [[[7]]] ! 0 ! 0 ! 0 = 7"
    using predict_mask_blend [OF h, of 0 "[[1 / 2]]" "[[[5]]]" "[[[7]]]" 0 0 stub_layers 1 0]
    by auto
  have zero: "blend (position_mask (masking_weight stub_layers (transformer_ae_small 1 256 PREDICT) 0 0)
            [[1 / 2]]) [[[5]]] [[[7]]] ! 0 ! 0 ! 0 = 5"
    using predict_mask_blend [OF h, of 0 "[[1 / 2]]" "[[[5]]]" "[[[7]]]" 0 0 stub_layers 0 0]
    by auto
  show ?thesis using one zero by (rule conjI)
qed

text \<open>
  Claim C1 as stated reads \<^verbatim>\<open>predict_mask = 1.0\<close> as "the decoder consumes the
  ground truth" and \<^verbatim>\<open>0.0\<close> as "the full reconstruction". For the target
  \<open>5\<close>, the decompressed latent \<open>7\<close> and the draw \<open>1/2\<close> it is the other
  way round.
\<close>

theorem predict_mask_one_is_ground_truth_counterexample:
  "blend (position_mask (masking_weight stub_layers (transformer_ae_small 1 256 PREDICT) 1 0)
            [[1 / 2]]) [[[5]]] [[[7]]] = [[[7]]] \<and>
   blend (position_mask (masking_weight stub_layers (transformer_ae_small 1 256 PREDICT) 0 0)
            [[1 / 2]]) [[[5]]] [[[7]]] = [[[5]]]"
  by (simp add: masking_weight_def transformer_ae_small_def position_mask_def blend_def Let_def)

subsection \<open>Facts about the reshape of the targets\<close>

lemma reshape_rows_two:
  assumes "length a = h" and "length b = h"
  shows "reshape_rows (Suc 0) 2 h (a @ b) = [[a, b]]"
  using assms by (simp add: reshape_rows_def upt_rec)

lemma reshape_targets_two:
  assumes "hidden_size hp = h" and "0 < h" and "length a = h" and "length b = h"
  shows "reshape_targets hp None [[a, b]] = Inr [[a, b]]"
proof -
  have d: "(h + h) div h = 2" using assms(2) by (simp add: mult_2 [symmetric])
  show ?thesis
    using assms by (simp add: reshape_targets_def Let_def d reshape_rows_two)
qed

lemma reshape_targets_two_inputs:
  assumes "hidden_size hp = h" and "0 < h" and "length a = h" and "length b = h"
  shows "reshape_targets hp (Some [i]) [[a, b]] = Inr [[a, b]]"
proof -
  have d: "(h + h) div h = 2" using assms(2) by (simp add: mult_2 [symmetric])
  show ?thesis
    using assms by (simp add: reshape_targets_def Let_def d reshape_rows_two)
qed

lemma reshape_targets_short:
  assumes "hidden_size hp = 384"
  shows "reshape_targets hp None [[[5], [6]]] = Inl (ValueError ''Cannot reshape a tensor'')"
  using assms by (simp add: reshape_targets_def Let_def)

subsection \<open>Facts about the forward pass without autoencoding\<close>

lemma without_ae_unfold:
  assumes "\<not> do_ae hp"
  shows "ae_transformer_internal P R inputs targets sp hp cache pm w =
           (case reshape_targets hp inputs targets of
              Inl e \<Rightarrow> (Inl e, if do_refine hp then w\<lparr>DO_SUMMARIES := False\<rparr> else w)
            | Inr t0 \<Rightarrow>
                (case decode_transformer P (fst (encode_inputs P inputs sp))
                        (snd (encode_inputs P inputs sp)) t0 hp ''decoder'' None (causal hp) of
                   Inl e \<Rightarrow> (Inl e, if do_refine hp then w\<lparr>DO_SUMMARIES := False\<rparr> else w)
                 | Inr res0 \<Rightarrow>
                     (Inl (UnboundLocalError ''original_targets_shape''),
                      if do_refine hp then w\<lparr>DO_SUMMARIES := False\<rparr> else w)))"
  using assms by (simp add: ae_transformer_internal_def Let_def split: sum.splits)

lemma decode_transformer_other_task:
  assumes "task hp \<noteq> ''translate''" and "task hp \<noteq> ''image''"
  shows "decode_transformer P enc bias t hp name None c = Inl AssertionError"
  using assms by (simp add: decode_transformer_def)


text \<open>
  Claim C10, amended. With \<^verbatim>\<open>do_ae\<close> false the autoencoding block, the only
  place that binds \<^verbatim>\<open>original_targets_shape\<close> and \<^verbatim>\<open>targets_c\<close>, is
  skipped and the reshaped targets go straight to the decoder of line 515. A call whose
  targets do not reshape fails with the error of the reshape (line 344); a call whose
  decoder fails fails with the decoder's error; in particular a call whose task is
  neither \<^verbatim>\<open>"translate"\<close> nor \<^verbatim>\<open>"image"\<close> fails the assertion of the
  decoder wrapper (line 179), not with an undefined name. In each case the process
  state is what line 337 left.
\<close>

theorem without_ae_errors_propagate:
  assumes "\<not> do_ae hp"
  shows "(\<forall>e. reshape_targets hp inputs targets = Inl e \<longrightarrow>
            ae_transformer_internal P R inputs targets sp hp cache pm w =
              (Inl e, if do_refine hp then w\<lparr>DO_SUMMARIES := False\<rparr> else w)) \<and>
         (\<forall>t0 e. reshape_targets hp inputs targets = Inr t0 \<longrightarrow>
            decode_transformer P (fst (encode_inputs P inputs sp))
              (snd (encode_inputs P inputs sp)) t0 hp ''decoder'' None (causal hp) = Inl e \<longrightarrow>
            ae_transformer_internal P R inputs targets sp hp cache pm w =
              (Inl e, if do_refine hp then w\<lparr>DO_SUMMARIES := False\<rparr> else w)) \<and>
         (\<forall>t0. reshape_targets hp inputs targets = Inr t0 \<longrightarrow>
            task hp \<noteq> ''translate'' \<longrightarrow> task hp \<noteq> ''image'' \<longrightarrow>
            ae_transformer_internal P R inputs targets sp hp cache pm w =
              (Inl AssertionError,
               if do_refine hp then w\<lparr>DO_SUMMARIES := False\<rparr> else w))"
proof (intro conjI allI impI)
  fix e
  assume "reshape_targets hp inputs targets = Inl e"
  then show "ae_transformer_internal P R inputs targets sp hp cache pm w =
              (Inl e, if do_refine hp then w\<lparr>DO_SUMMARIES := False\<rparr> else w)"
    by (simp only: without_ae_unfold [OF assms] sum.case)
next
  fix t0 e
  assume "reshape_targets hp inputs targets = Inr t0"
    and "decode_transformer P (fst (encode_inputs P inputs sp))
              (snd (encode_inputs P inputs sp)) t0 hp ''decoder'' None (causal hp) = Inl e"
  then show "ae_transformer_internal P R inputs targets sp hp cache pm w =
              (Inl e, if do_refine hp then w\<lparr>DO_SUMMARIES := False\<rparr> else w)"
    by (simp only: without_ae_unfold [OF assms] sum.case)
next
  fix t0
  assume r: "reshape_targets hp inputs targets = Inr t0"
    and t: "task hp \<noteq> ''translate''" "task hp \<noteq> ''image''"
  show "ae_transformer_internal P R inputs targets sp hp cache pm w =
              (Inl AssertionError,
               if do_refine hp then w\<lparr>DO_SUMMARIES := False\<rparr> else w)"
    by (simp only: without_ae_unfold [OF assms] r decode_transformer_other_task [OF t] sum.case)
qed

theorem without_ae_errors_propagate_witness:
  "ae_transformer_internal stub_layers stub_draws None [[[5], [6]]] 0
       ((transformer_ae_small 1 256 EVAL)\<lparr>do_ae := False\<rparr>) None 1 fresh_world =
     (Inl (ValueError ''Cannot reshape a tensor''), fresh_world) \<and>
   ae_transformer_internal stub_layers stub_draws (Some [[replicate 384 1]])
       [[replicate 384 5, replicate 384 6]] 0
       ((transformer_ae_small 1 256 EVAL)\<lparr>do_ae := False, task := ''audio''\<rparr>) None 1
       fresh_world =
     (Inl AssertionError, fresh_world)"
proof -
  let ?hp = "(transformer_ae_small 1 256 EVAL)\<lparr>do_ae := False\<rparr>"
  let ?hq = "(transformer_ae_small 1 256 EVAL)\<lparr>do_ae := False, task := ''audio''\<rparr>"
  have h: "\<not> do_ae ?hp" "\<not> do_ae ?hq" by simp_all
  have nr: "\<not> do_refine ?hp" "\<not> do_refine ?hq" by (simp_all add: transformer_ae_small_def)
  have hs: "hidden_size ?hp = 384" "hidden_size ?hq = 384"
    by (simp_all add: transformer_ae_small_def)
  have tk: "task ?hq \<noteq> ''translate''" "task ?hq \<noteq> ''image''" by simp_all
  have r1: "reshape_targets ?hp None [[[5], [6]]] = Inl (ValueError ''Cannot reshape a tensor'')"
    using hs(1) by (rule reshape_targets_short)
  have r2: "reshape_targets ?hq (Some [[replicate 384 1]]) [[replicate 384 5, replicate 384 6]] =
              Inr [[replicate 384 5, replicate 384 6]]"
    using hs(2) by (rule reshape_targets_two_inputs) simp_all
  have A: "ae_transformer_internal stub_layers stub_draws None [[[5], [6]]] 0 ?hp None 1
             fresh_world = (Inl (ValueError ''Cannot reshape a tensor''), fresh_world)"
    using without_ae_errors_propagate [OF h(1), of None "[[[5], [6]]]" stub_layers stub_draws 0
        None 1 fresh_world] r1 nr(1)
    by simp
  have B: "ae_transformer_internal stub_layers stub_draws (Some [[replicate 384 1]])
             [[replicate 384 5, replicate 384 6]] 0 ?hq None 1 fresh_world =
           (Inl AssertionError, fresh_world)"
    using without_ae_errors_propagate [OF h(2), of "Some [[replicate 384 1]]"
        "[[replicate 384 5, replicate 384 6]]" stub_layers stub_draws 0 None 1 fresh_world]
      r2 nr(2) tk
    by simp
  show ?thesis using A B by (rule conjI)
qed

text \<open>
  Claim C10 as stated names the undefined-name error for every call with
  \<^verbatim>\<open>do_ae\<close> false. At the preset with \<^verbatim>\<open>do_ae\<close> off and the task
  \<^verbatim>\<open>"audio"\<close>, on targets of shape \<^verbatim>\<open>[1, 2, 1, 384]\<close>, the assertion of
  the decoder wrapper fails first.
\<close>

theorem undefined_name_without_ae_counterexample:
  "fst (ae_transformer_internal stub_layers stub_draws None
          [[replicate 384 5, replicate 384 6]] 0
          ((transformer_ae_small 1 256 TRAIN)\<lparr>do_ae := False, task := ''audio''\<rparr>) None 1
          fresh_world) = Inl AssertionError \<and>
   AssertionError \<noteq> UnboundLocalError ''original_targets_shape'' \<and>
   AssertionError \<noteq> UnboundLocalError ''targets_c''"
proof -
  let ?hq = "(transformer_ae_small 1 256 TRAIN)\<lparr>do_ae := False, task := ''audio''\<rparr>"
  have hs: "hidden_size ?hq = 384" by (simp add: transformer_ae_small_def)
  have r: "reshape_targets ?hq None [[replicate 384 5, replicate 384 6]] =
             Inr [[replicate 384 5, replicate 384 6]]"
    using hs by (rule reshape_targets_two) simp_all
  have d: "decode_transformer stub_layers None None [[replicate 384 5, replicate 384 6]] ?hq
             ''decoder'' None c = Inl AssertionError" for c
    by (rule decode_transformer_other_task) simp_all
  show ?thesis
    by (simp add: without_ae_unfold r d encode_inputs_def)
qed

text \<open>
  Claim C8 at the preset with \<^verbatim>\<open>do_ae\<close> turned off, on targets of shape
  \<^verbatim>\<open>[1, 2, 1, 384]\<close> and no inputs: the reshape of line 344 and the decoder of
  line 515 succeed, and the dictionary of three zeros built at lines 355-356 is never
  returned, because the call raises at line 536.
\<close>

theorem losses_not_returned_without_ae:
  "reshape_targets ((transformer_ae_small 1 256 TRAIN)\<lparr>do_ae := False\<rparr>) None
     [[replicate 384 5, replicate 384 6]] = Inr [[replicate 384 5, replicate 384 6]] \<and>
   decode_transformer stub_layers None None [[replicate 384 5, replicate 384 6]]
     ((transformer_ae_small 1 256 TRAIN)\<lparr>do_ae := False\<rparr>) ''decoder'' None True =
     Inr [[replicate 384 5, replicate 384 6]] \<and>
   fst (ae_transformer_internal stub_layers stub_draws None
          [[replicate 384 5, replicate 384 6]] 0
          ((transformer_ae_small 1 256 TRAIN)\<lparr>do_ae := False\<rparr>) None 1 fresh_world) =
     Inl (UnboundLocalError ''original_targets_shape'')"
proof -
  let ?hp = "(transformer_ae_small 1 256 TRAIN)\<lparr>do_ae := False\<rparr>"
  have hs: "hidden_size ?hp = 384" by (simp add: transformer_ae_small_def)
  have c: "causal ?hp" by (simp add: transformer_ae_small_def)
  have r: "reshape_targets ?hp None [[replicate 384 5, replicate 384 6]] =
             Inr [[replicate 384 5, replicate 384 6]]"
    using hs by (rule reshape_targets_two) simp_all
  have d: "decode_transformer stub_layers None None [[replicate 384 5, replicate 384 6]] ?hp
             ''decoder'' None True = Inr [[replicate 384 5, replicate 384 6]]"
    by (simp add: decode_transformer_def transformer_ae_small_def stub_layers_def)
  have "fst (ae_transformer_internal stub_layers stub_draws None
          [[replicate 384 5, replicate 384 6]] 0 ?hp None 1 fresh_world) =
     Inl (UnboundLocalError ''original_targets_shape'')"
    by (simp add: without_ae_unfold r d c encode_inputs_def)
  with r d show ?thesis by simp
qed

subsection \<open>The forward pass and the process state\<close>

lemma prepare_targets_world:
  "fst (prepare_targets P hp i t w) = fst (prepare_targets P hp i t w')"
  "DO_SUMMARIES (snd (prepare_targets P hp i t w)) = DO_SUMMARIES w"
  by (simp_all add: prepare_targets_def Let_def)

lemma autoencode_train_world:
  "fst (autoencode_train P R hp i ed tc ls w) = fst (autoencode_train P R hp i ed tc ls w')"
  "DO_SUMMARIES (snd (autoencode_train P R hp i ed tc ls w)) = DO_SUMMARIES w"
  by (simp_all add: autoencode_train_def Let_def split: sum.splits option.splits prod.splits)

lemma ae_latent_sample_world:
  "fst (ae_latent_sample P ld i ed f n hp w) = fst (ae_latent_sample P ld i ed f n hp w')"
  "DO_SUMMARIES (snd (ae_latent_sample P ld i ed f n hp w)) = DO_SUMMARIES w"
  by (simp_all add: ae_latent_sample_def split: sum.splits)

lemma autoencode_predict_world:
  "fst (autoencode_predict P hp i ed tc c w) = fst (autoencode_predict P hp i ed tc c w')"
  "DO_SUMMARIES (snd (autoencode_predict P hp i ed tc c w)) = DO_SUMMARIES w"
proof -
  let ?s = "\<lambda>w. ae_latent_sample P (map (map (map (\<lambda>v. 0))) (map (take (dim1 tc)) tc)) i ed
                 (bn_embed (bottleneck P tc None)) 16 hp w"
  have f: "fst (?s w) = fst (?s w')" by (rule ae_latent_sample_world)
  have g: "DO_SUMMARIES (snd (?s w)) = DO_SUMMARIES w" by (rule ae_latent_sample_world)
  show "fst (autoencode_predict P hp i ed tc c w) = fst (autoencode_predict P hp i ed tc c w')"
    using f by (cases "?s w"; cases "?s w'")
      (auto simp: autoencode_predict_def Let_def split: sum.splits option.splits)
  show "DO_SUMMARIES (snd (autoencode_predict P hp i ed tc c w)) = DO_SUMMARIES w"
    using g by (cases "?s w")
      (auto simp: autoencode_predict_def Let_def split: sum.splits option.splits)
qed


lemma bottleneck_stage_world:
  "fst (bottleneck_stage P R hp i ed tc ls c w) = fst (bottleneck_stage P R hp i ed tc ls c w')"
  "DO_SUMMARIES (snd (bottleneck_stage P R hp i ed tc ls c w)) = DO_SUMMARIES w"
proof -
  let ?t = "\<lambda>w. autoencode_train P R hp i ed tc ls w"
  let ?p = "\<lambda>w. autoencode_predict P hp i ed tc c w"
  have ft: "fst (?t w) = fst (?t w')" and gt: "DO_SUMMARIES (snd (?t w)) = DO_SUMMARIES w"
    by (rule autoencode_train_world)+
  have fp: "fst (?p w) = fst (?p w')" and gp: "DO_SUMMARIES (snd (?p w)) = DO_SUMMARIES w"
    by (rule autoencode_predict_world)+
  show "fst (bottleneck_stage P R hp i ed tc ls c w) = fst (bottleneck_stage P R hp i ed tc ls c w')"
    using ft fp
    by (cases "?t w"; cases "?t w'"; cases "?p w"; cases "?p w'")
      (auto simp: bottleneck_stage_def split: sum.splits)
  show "DO_SUMMARIES (snd (bottleneck_stage P R hp i ed tc ls c w)) = DO_SUMMARIES w"
    using gt gp
    by (cases "?t w"; cases "?p w") (auto simp: bottleneck_stage_def split: sum.splits)
qed

lemma autoencoding_world:
  "fst (autoencoding P R hp i ed t ls c pm w) = fst (autoencoding P R hp i ed t ls c pm w')"
  "DO_SUMMARIES (snd (autoencoding P R hp i ed t ls c pm w)) = DO_SUMMARIES w"
proof -
  obtain r w1 where p: "prepare_targets P hp i t w = (r, w1)" by (cases "prepare_targets P hp i t w")
  obtain r' w1' where p': "prepare_targets P hp i t w' = (r', w1')"
    by (cases "prepare_targets P hp i t w'")
  have rr: "r' = r" using prepare_targets_world(1) [of P hp i t w w'] p p' by simp
  have f1: "DO_SUMMARIES w1 = DO_SUMMARIES w" using prepare_targets_world(2) [of P hp i t w] p by simp
  show "fst (autoencoding P R hp i ed t ls c pm w) = fst (autoencoding P R hp i ed t ls c pm w')"
  proof (cases r)
    case (Inl e)
    then show ?thesis using p p' rr by (simp add: autoencoding_def)
  next
    case (Inr tt)
    obtain t1 tn where tt: "tt = (t1, tn)" by (cases tt)
    let ?b = "\<lambda>w. bottleneck_stage P R hp i ed (compress P tn i) ls c w"
    have fb: "fst (?b w1) = fst (?b w1')" by (rule bottleneck_stage_world)
    show ?thesis using p p' rr Inr tt fb
      by (cases "?b w1"; cases "?b w1'") (auto simp: autoencoding_def Let_def split: sum.splits)
  qed
  show "DO_SUMMARIES (snd (autoencoding P R hp i ed t ls c pm w)) = DO_SUMMARIES w"
  proof (cases r)
    case (Inl e)
    then show ?thesis using p f1 by (simp add: autoencoding_def)
  next
    case (Inr tt)
    obtain t1 tn where tt: "tt = (t1, tn)" by (cases tt)
    let ?b = "\<lambda>w. bottleneck_stage P R hp i ed (compress P tn i) ls c w"
    have gb: "DO_SUMMARIES (snd (?b w1)) = DO_SUMMARIES w1" by (rule bottleneck_stage_world)
    show ?thesis using p Inr tt gb f1
      by (cases "?b w1") (auto simp: autoencoding_def Let_def split: sum.splits)
  qed
qed

lemma module_flag_after_call:
  "DO_SUMMARIES (snd (ae_transformer_internal P R inputs targets sp hp cache pm w)) =
     (DO_SUMMARIES w \<and> \<not> do_refine hp)"
proof (cases "reshape_targets hp inputs targets")
  case (Inl e)
  then show ?thesis by (simp add: ae_transformer_internal_def Let_def)
next
  case (Inr t0)
  let ?a = "\<lambda>w. autoencoding P R hp (fst (encode_inputs P inputs sp))
                  (snd (encode_inputs P inputs sp)) t0 initial_losses cache pm w"
  let ?w0 = "\<lambda>w. if do_refine hp then w\<lparr>DO_SUMMARIES := False\<rparr> else w"
  have ga: "DO_SUMMARIES (snd (?a (?w0 w))) = DO_SUMMARIES (?w0 w)" by (rule autoencoding_world)
  show ?thesis
    using ga Inr
    by (cases "?a (?w0 w)")
      (auto simp: ae_transformer_internal_def Let_def split: sum.splits prod.splits)
qed

lemma result_independent_of_state:
  "fst (ae_transformer_internal P R inputs targets sp hp cache pm w) =
     fst (ae_transformer_internal P R inputs targets sp hp cache pm w')"
proof (cases "reshape_targets hp inputs targets")
  case (Inl e)
  then show ?thesis by (simp add: ae_transformer_internal_def Let_def)
next
  case (Inr t0)
  let ?a = "\<lambda>w. autoencoding P R hp (fst (encode_inputs P inputs sp))
                  (snd (encode_inputs P inputs sp)) t0 initial_losses cache pm w"
  let ?w0 = "\<lambda>w. if do_refine hp then w\<lparr>DO_SUMMARIES := False\<rparr> else w"
  have fa: "fst (?a (?w0 w)) = fst (?a (?w0 w'))" by (rule autoencoding_world)
  show ?thesis
    using fa Inr
    by (cases "?a (?w0 w)"; cases "?a (?w0 w')")
      (auto simp: ae_transformer_internal_def Let_def split: sum.splits prod.splits)
qed

text \<open>
  Claim C5 as stated has no call modify module-level state. At the preset with
  \<^verbatim>\<open>do_refine\<close> set, a call entered with \<^verbatim>\<open>_DO_SUMMARIES = True\<close>
  leaves it \<^verbatim>\<open>False\<close> (lines 335-337).
\<close>

theorem module_flag_written_counterexample:
  "DO_SUMMARIES fresh_world \<and>
   \<not> DO_SUMMARIES (snd (ae_transformer_internal stub_layers stub_draws None
                         [[replicate 384 5, replicate 384 6]] 0
                         ((transformer_ae_small 1 256 TRAIN)\<lparr>do_refine := True\<rparr>) None 1
                         fresh_world))"
  by (simp add: module_flag_after_call fresh_world_def)

text \<open>
  Claim C5, amended. With the layers and the random draws fixed, the values a call
  returns are a function of its inputs, the configuration, the cache and
  \<^verbatim>\<open>predict_mask\<close>: they do not depend on the process state. But the call writes
  module-level state: afterwards \<^verbatim>\<open>_DO_SUMMARIES\<close> holds exactly when it held
  before and \<^verbatim>\<open>do_refine\<close> is off, so a call with \<^verbatim>\<open>do_refine\<close> turns
  the flag off for the rest of the process and a call without it leaves the flag alone.
\<close>

theorem forward_pass_module_flag:
  "DO_SUMMARIES (snd (ae_transformer_internal P R inputs targets sp hp cache pm w)) =
     (DO_SUMMARIES w \<and> \<not> do_refine hp) \<and>
   fst (ae_transformer_internal P R inputs targets sp hp cache pm w) =
     fst (ae_transformer_internal P R inputs targets sp hp cache pm w')"
  using module_flag_after_call result_independent_of_state by (rule conjI)

subsection \<open>Facts about the losses of the dense bottleneck\<close>























end
